theory Spec2Isabelle
  imports Complex_Main
begin

section \<open>Python values the simulations rely on\<close>

text \<open>
  The scripts compute with Python floats; they are modelled as mathematical reals, so
  rounding, overflow and NaN are outside the model.  Every exception the source can raise
  on the paths modelled here is a value of \<open>py_error\<close>, and a fallible computation
  returns \<open>py_error + 'a\<close>.
\<close>

datatype py_error =
    AssertionError
  | ValueError
  | ZeroDivisionError
  | IndexError
  | StatisticsError
  | TypeError

definition bind_res :: "py_error + 'a \<Rightarrow> ('a \<Rightarrow> py_error + 'b) \<Rightarrow> py_error + 'b" where
  "bind_res m f = (case m of Inl e \<Rightarrow> Inl e | Inr x \<Rightarrow> f x)"

text \<open>A \<open>for\<close> loop over a list of indices whose body may raise.\<close>

fun for_res :: "'a list \<Rightarrow> ('a \<Rightarrow> 's \<Rightarrow> py_error + 's) \<Rightarrow> 's \<Rightarrow> py_error + 's" where
  "for_res [] f s = Inr s"
| "for_res (x # xs) f s = bind_res (f x s) (for_res xs f)"

text \<open>\<open>range(a, b)\<close> on Python integers.\<close>

definition py_range :: "int \<Rightarrow> int \<Rightarrow> int list" where
  "py_range a b = [a..b - 1]"

text \<open>\<open>[x] * n\<close>: a negative count gives the empty list.\<close>

definition py_replicate :: "int \<Rightarrow> 'a \<Rightarrow> 'a list" where
  "py_replicate n x = replicate (nat n) x"

text \<open>List indexing: a negative index counts from the end, anything else out of range raises.\<close>

definition py_index :: "'a list \<Rightarrow> int \<Rightarrow> py_error + nat" where
  "py_index xs i =
     (if 0 \<le> i \<and> i < int (length xs) then Inr (nat i)
      else if - int (length xs) \<le> i \<and> i < 0 then Inr (nat (int (length xs) + i))
      else Inl IndexError)"

definition py_get :: "'a list \<Rightarrow> int \<Rightarrow> py_error + 'a" where
  "py_get xs i = bind_res (py_index xs i) (\<lambda>j. Inr (xs ! j))"

definition py_set :: "'a list \<Rightarrow> int \<Rightarrow> 'a \<Rightarrow> py_error + 'a list" where
  "py_set xs i v = bind_res (py_index xs i) (\<lambda>j. Inr (xs[j := v]))"

text \<open>\<open>xs[i] += v\<close>.\<close>

definition py_add_at :: "real list \<Rightarrow> int \<Rightarrow> real \<Rightarrow> py_error + real list" where
  "py_add_at xs i v = bind_res (py_get xs i) (\<lambda>old. py_set xs i (old + v))"

text \<open>Float division raises on a zero divisor.\<close>

definition py_div :: "real \<Rightarrow> real \<Rightarrow> py_error + real" where
  "py_div a b = (if b = 0 then Inl ZeroDivisionError else Inr (a / b))"

text \<open>\<open>math.sqrt\<close> raises on a negative argument.\<close>

definition py_sqrt :: "real \<Rightarrow> py_error + real" where
  "py_sqrt a = (if a < 0 then Inl ValueError else Inr (sqrt a))"

text \<open>\<open>int(x)\<close> on a float truncates toward zero.\<close>

definition py_int :: "real \<Rightarrow> int" where
  "py_int a = (if 0 \<le> a then \<lfloor>a\<rfloor> else \<lceil>a\<rceil>)"

text \<open>\<open>statistics.fmean\<close> raises on an empty sample.\<close>

definition fmean :: "real list \<Rightarrow> py_error + real" where
  "fmean xs = (if xs = [] then Inl StatisticsError else Inr (sum_list xs / real (length xs)))"

text \<open>\<open>max(xs)\<close> on a list known to be non-empty.\<close>

definition py_max :: "real list \<Rightarrow> real" where
  "py_max xs = foldl max (hd xs) (tl xs)"

text \<open>Slices \<open>xs[:k]\<close> and \<open>xs[s:]\<close>, negative bounds counting from the end.\<close>

definition py_slice_to :: "'a list \<Rightarrow> int \<Rightarrow> 'a list" where
  "py_slice_to xs k =
     (let n = int (length xs); k' = (if k < 0 then max (n + k) 0 else min k n)
      in take (nat k') xs)"

definition py_slice_from :: "'a list \<Rightarrow> int \<Rightarrow> 'a list" where
  "py_slice_from xs s =
     (let n = int (length xs); s' = (if s < 0 then max (n + s) 0 else min s n)
      in drop (nat s') xs)"

subsection \<open>The module-level generator\<close>

text \<open>
  The scripts draw from Python's global \<open>random\<close> module, which is not code of the
  repository.  It enters the model as a parameter: a generator state \<open>'g\<close> with the
  three operations the scripts call.  \<open>gauss_op\<close> yields the next standard normal
  deviate \<open>z\<close>; \<open>random.gauss(mu, sigma)\<close> returns \<open>mu + z * sigma\<close>.
\<close>

record 'g pyrandom =
  seed_op :: "int \<Rightarrow> 'g"
  random_op :: "'g \<Rightarrow> real \<times> 'g"
  gauss_op :: "'g \<Rightarrow> real \<times> 'g"

definition py_gauss :: "'g pyrandom \<Rightarrow> real \<Rightarrow> real \<Rightarrow> 'g \<Rightarrow> real \<times> 'g" where
  "py_gauss R mu sigma g = (let (z, g') = gauss_op R g in (mu + z * sigma, g'))"

text \<open>
  A generator for running the model on concrete inputs: its state counts the draws made so
  far, and the \<open>k\<close>-th draw returns \<open>k\<close>.
\<close>

definition counting_random :: "nat pyrandom" where
  "counting_random =
     \<lparr>seed_op = (\<lambda>s. 0), random_op = (\<lambda>k. (real k, Suc k)), gauss_op = (\<lambda>k. (real k, Suc k))\<rparr>"

definition PHI :: real where
  "PHI = (1 + sqrt 5) / 2"

definition PHI_PI :: real where
  "PHI_PI = PHI * pi"

section \<open>The 1-D cavity (wave\_cavity\_phi\_pi.py)\<close>

text \<open>Fields of \<open>CavityParams\<close>, prefixed \<open>cv_\<close> because the parameter classes share names.\<close>

record CavityParams =
  cv_N :: int
  cv_c :: real
  cv_dx :: real
  cv_dt :: real
  cv_steps :: int
  cv_gamma_interior :: real
  cv_pml_len :: int
  cv_pml_max :: real
  cv_i_src :: int
  cv_A :: real
  cv_f_cycles :: real
  cv_sigma_amp :: real
  cv_phase_jitter :: real
  cv_seed :: int

definition CavityParams_default :: CavityParams where
  "CavityParams_default =
     \<lparr>cv_N = 600, cv_c = 1, cv_dx = 1, cv_dt = 1/2, cv_steps = 9000,
      cv_gamma_interior = 1/1000, cv_pml_len = 80, cv_pml_max = 2/100,
      cv_i_src = 60, cv_A = 6/10, cv_f_cycles = 2/100,
      cv_sigma_amp = 1/10, cv_phase_jitter = 2/100, cv_seed = 4\<rparr>"

record WaveCavity =
  wc_p :: CavityParams
  wc_mode :: string
  wc_r :: real
  wc_u_prev :: "real list"
  wc_u :: "real list"
  wc_u_next :: "real list"
  wc_gamma :: "real list"
  wc_omega :: real
  wc_phase :: real

text \<open>The body of the constructor's ramp loop, for one \<open>i\<close> of \<open>range(L)\<close>.\<close>

definition pml_body :: "CavityParams \<Rightarrow> int \<Rightarrow> real list \<Rightarrow> py_error + real list" where
  "pml_body p i gam =
     (let g = cv_pml_max p * of_int (i + 1) / of_int (cv_pml_len p)
      in bind_res (py_add_at gam i g) (\<lambda>gam1. py_add_at gam1 (cv_N p - 1 - i) g))"

definition cavity_gamma :: "CavityParams \<Rightarrow> string \<Rightarrow> py_error + real list" where
  "cavity_gamma p mode =
     (let gam = py_replicate (cv_N p) (cv_gamma_interior p)
      in if mode = ''open'' then for_res (py_range 0 (cv_pml_len p)) (pml_body p) gam
         else Inr gam)"

text \<open>
  \<open>WaveCavity.__init__\<close>.  The incoming generator state \<open>g0\<close> is whatever earlier code
  left in the module; the constructor replaces it by seeding.
\<close>

definition WaveCavity_init ::
  "'g pyrandom \<Rightarrow> 'g \<Rightarrow> CavityParams \<Rightarrow> string \<Rightarrow> py_error + (WaveCavity \<times> 'g)" where
  "WaveCavity_init R g0 p mode =
     (if mode \<noteq> ''confined'' \<and> mode \<noteq> ''open'' then Inl AssertionError
      else
        let g = seed_op R (cv_seed p) in
        bind_res (py_div (cv_c p * cv_dt p) (cv_dx p)) (\<lambda>r.
          if r > 1 then Inl ValueError
          else
            bind_res (cavity_gamma p mode) (\<lambda>gam.
              Inr (\<lparr>wc_p = p, wc_mode = mode, wc_r = r,
                     wc_u_prev = py_replicate (cv_N p) 0,
                     wc_u = py_replicate (cv_N p) 0,
                     wc_u_next = py_replicate (cv_N p) 0,
                     wc_gamma = gam,
                     wc_omega = 2 * pi * cv_f_cycles p,
                     wc_phase = PHI_PI\<rparr>, g))))"

section \<open>The 3-D grid (wave3d\_phi\_pi.py): constructor\<close>

record P3D =
  p3_N :: int
  p3_c :: real
  p3_dx :: real
  p3_dt :: real
  p3_steps :: int
  p3_gamma_interior :: real
  p3_pml_len :: int
  p3_pml_max :: real
  p3_A :: real
  p3_f_cycles :: real
  p3_sigma_amp :: real
  p3_phase_jitter :: real
  p3_seed :: int

definition P3D_default :: P3D where
  "P3D_default =
     \<lparr>p3_N = 22, p3_c = 1, p3_dx = 1, p3_dt = 35/100, p3_steps = 700,
      p3_gamma_interior = 2/1000, p3_pml_len = 3, p3_pml_max = 6/100,
      p3_A = 7/10, p3_f_cycles = 2/100, p3_sigma_amp = 1/10, p3_phase_jitter = 2/100,
      p3_seed = 5\<rparr>"

record Wave3D =
  w3_p :: P3D
  w3_mode :: string
  w3_r :: real
  w3_N :: int
  w3_u_prev :: "real list"
  w3_u :: "real list"
  w3_u_next :: "real list"
  w3_src :: "int \<times> int \<times> int"
  w3_gamma :: "real list"
  w3_omega :: real
  w3_phase :: real

definition pml3_depth :: "int \<Rightarrow> int \<Rightarrow> int \<Rightarrow> int \<Rightarrow> int" where
  "pml3_depth N i j k = min i (min j (min k (min (N - 1 - i) (min (N - 1 - j) (N - 1 - k)))))"

definition pml3_body :: "P3D \<Rightarrow> int \<Rightarrow> int \<Rightarrow> int \<Rightarrow> real list \<Rightarrow> py_error + real list" where
  "pml3_body p k j i gam =
     (let N = p3_N p; L = p3_pml_len p; d = pml3_depth N i j k;
          g = (if d < L then p3_pml_max p * of_int (L - d) / of_int L else 0)
      in py_add_at gam ((k * N + j) * N + i) g)"

definition wave3d_gamma :: "P3D \<Rightarrow> string \<Rightarrow> py_error + real list" where
  "wave3d_gamma p mode =
     (let N = p3_N p; gam = py_replicate (N * N * N) (p3_gamma_interior p)
      in if mode = ''open'' then
           for_res (py_range 0 N) (\<lambda>k.
             for_res (py_range 0 N) (\<lambda>j.
               for_res (py_range 0 N) (\<lambda>i. pml3_body p k j i))) gam
         else Inr gam)"

definition Wave3D_init ::
  "'g pyrandom \<Rightarrow> 'g \<Rightarrow> P3D \<Rightarrow> string \<Rightarrow> py_error + (Wave3D \<times> 'g)" where
  "Wave3D_init R g0 p mode =
     (if mode \<noteq> ''confined'' \<and> mode \<noteq> ''open'' then Inl AssertionError
      else
        let g = seed_op R (p3_seed p) in
        bind_res (py_div (p3_c p * p3_dt p) (p3_dx p)) (\<lambda>r.
          if r > 1 / sqrt 3 then Inl ValueError
          else
            let N = p3_N p in
            bind_res (wave3d_gamma p mode) (\<lambda>gam.
              Inr (\<lparr>w3_p = p, w3_mode = mode, w3_r = r, w3_N = N,
                     w3_u_prev = py_replicate (N * N * N) 0,
                     w3_u = py_replicate (N * N * N) 0,
                     w3_u_next = py_replicate (N * N * N) 0,
                     w3_src = (N div 2, N div 2, N div 2),
                     w3_gamma = gam,
                     w3_omega = 2 * pi * p3_f_cycles p,
                     w3_phase = PHI_PI\<rparr>, g))))"

section \<open>The 2-D grid (ascii\_phi\_pi.py): constructor\<close>

record Sim2D =
  s2_W :: int
  s2_H :: int
  s2_dx :: real
  s2_dt :: real
  s2_c :: real
  s2_r :: real
  s2_u_prev :: "real list list"
  s2_u :: "real list list"
  s2_u_next :: "real list list"
  s2_A :: real
  s2_f_cycles :: real
  s2_omega :: real
  s2_phase :: real
  s2_sigma_amp :: real
  s2_phase_jitter :: real
  s2_gamma_interior :: real
  s2_lock_on :: bool
  s2_detune :: real
  s2_boundary :: string
  s2_sy :: int
  s2_sx :: int

text \<open>
  \<open>Sim2D.__init__(W, H)\<close>: the steps \<open>dx\<close>, \<open>dt\<close> and the speed \<open>c\<close> are literals of
  the constructor, not arguments, and there is no stability test.
\<close>

definition Sim2D_init :: "'g pyrandom \<Rightarrow> 'g \<Rightarrow> int \<Rightarrow> int \<Rightarrow> py_error + (Sim2D \<times> 'g)" where
  "Sim2D_init R g0 W H =
     (let dx = 1; dt = 45/100; c = 1 in
      bind_res (py_div (c * dt) dx) (\<lambda>r.
        Inr (\<lparr>s2_W = W, s2_H = H, s2_dx = dx, s2_dt = dt, s2_c = c, s2_r = r,
               s2_u_prev = py_replicate H (py_replicate W 0),
               s2_u = py_replicate H (py_replicate W 0),
               s2_u_next = py_replicate H (py_replicate W 0),
               s2_A = 8/10, s2_f_cycles = 2/100, s2_omega = 2 * pi * (2/100),
               s2_phase = PHI_PI, s2_sigma_amp = 1/10, s2_phase_jitter = 2/100,
               s2_gamma_interior = 15/10000, s2_lock_on = True, s2_detune = 1,
               s2_boundary = ''confined'', s2_sy = H div 2, s2_sx = W div 2\<rparr>,
             seed_op R 7)))"

section \<open>The 1-D cavity: stepping, energy and a run\<close>

text \<open>The phase random walk at the head of \<open>WaveCavity.step\<close>.\<close>

definition cavity_phase_update :: "'g pyrandom \<Rightarrow> CavityParams \<Rightarrow> real \<times> 'g \<Rightarrow> real \<times> 'g" where
  "cavity_phase_update R p pg =
     (let (phase, g) = pg; (jit, g1) = py_gauss R 0 (cv_phase_jitter p) g
      in (phase + jit, g1))"

text \<open>The node that receives the drive: \<open>i0 = max(1, min(N - 2, p.i_src))\<close>.\<close>

definition drive_index :: "CavityParams \<Rightarrow> int" where
  "drive_index p = max 1 (min (cv_N p - 2) (cv_i_src p))"

text \<open>The interior update of node \<open>i\<close>, written into \<open>u_next\<close>.\<close>

definition cavity_interior :: "WaveCavity \<Rightarrow> int \<Rightarrow> real list \<Rightarrow> py_error + real list" where
  "cavity_interior cav i u_next =
     (let p = wc_p cav; r2 = wc_r cav * wc_r cav in
      bind_res (py_get (wc_u cav) (i + 1)) (\<lambda>up.
      bind_res (py_get (wc_u cav) i) (\<lambda>uc.
      bind_res (py_get (wc_u cav) (i - 1)) (\<lambda>um.
      bind_res (py_get (wc_gamma cav) i) (\<lambda>g.
      bind_res (py_get (wc_u_prev cav) i) (\<lambda>upv.
        py_set u_next i
          ((2 - 2 * g * cv_dt p) * uc - (1 - g * cv_dt p) * upv
             + r2 * (up - 2 * uc + um))))))))"

text \<open>The edge rule: fixed ends when confined, a copy of the neighbour otherwise.\<close>

definition cavity_edges :: "WaveCavity \<Rightarrow> real list \<Rightarrow> py_error + real list" where
  "cavity_edges cav un =
     (let N = cv_N (wc_p cav) in
      if wc_mode cav = ''confined'' then
        bind_res (py_set un 0 0) (\<lambda>un1. py_set un1 (N - 1) 0)
      else
        bind_res (py_get (wc_u cav) 1) (\<lambda>a.
        bind_res (py_set un 0 a) (\<lambda>un1.
        bind_res (py_get (wc_u cav) (N - 2)) (\<lambda>b.
          py_set un1 (N - 1) b))))"

text \<open>
  The source term of step \<open>n\<close>: the new phase, the drive sample \<open>s\<close> and the generator
  state after the two draws.
\<close>

definition cavity_source :: "'g pyrandom \<Rightarrow> int \<Rightarrow> WaveCavity \<times> 'g \<Rightarrow> real \<times> real \<times> 'g" where
  "cavity_source R n cg =
     (let (cav, g) = cg; p = wc_p cav;
          (phase, g1) = cavity_phase_update R p (wc_phase cav, g);
          (z, g2) = py_gauss R 0 1 g1;
          amp_noise = 1 + cv_sigma_amp p * z;
          s = cv_A p * amp_noise * sin (wc_omega cav * of_int n + phase)
      in (phase, s, g2))"

text \<open>\<open>WaveCavity.step(n)\<close>; the three buffers are rotated at the end.\<close>

definition WaveCavity_step ::
  "'g pyrandom \<Rightarrow> int \<Rightarrow> WaveCavity \<times> 'g \<Rightarrow> py_error + (WaveCavity \<times> 'g)" where
  "WaveCavity_step R n cg =
     (let cav = fst cg; p = wc_p cav; N = cv_N p;
          (phase, s, g2) = cavity_source R n cg
      in
      bind_res (for_res (py_range 1 (N - 1)) (cavity_interior cav) (wc_u_next cav)) (\<lambda>un1.
      bind_res (py_add_at un1 (drive_index p) (cv_dt p * cv_dt p * s)) (\<lambda>un2.
      bind_res (cavity_edges cav un2) (\<lambda>un3.
        Inr (cav\<lparr>wc_phase := phase, wc_u_prev := wc_u cav, wc_u := un3,
                   wc_u_next := wc_u_prev cav\<rparr>, g2)))))"

definition energy_body :: "WaveCavity \<Rightarrow> int \<Rightarrow> real \<times> real \<Rightarrow> py_error + real \<times> real" where
  "energy_body cav i totals =
     (let (v2_sum, ux2_sum) = totals; p = wc_p cav in
      bind_res (py_get (wc_u cav) i) (\<lambda>a.
      bind_res (py_get (wc_u_prev cav) i) (\<lambda>b.
      bind_res (py_div (a - b) (cv_dt p)) (\<lambda>v.
      bind_res (py_get (wc_u cav) (i + 1)) (\<lambda>c1.
      bind_res (py_get (wc_u cav) (i - 1)) (\<lambda>c0.
      bind_res (py_div (1/2 * (c1 - c0)) (cv_dx p)) (\<lambda>ux.
        Inr (v2_sum + v * v, ux2_sum + ux * ux))))))))"

definition WaveCavity_energy :: "WaveCavity \<Rightarrow> py_error + real" where
  "WaveCavity_energy cav =
     (let p = wc_p cav in
      bind_res (for_res (py_range 1 (cv_N p - 1)) (energy_body cav) (0, 0)) (\<lambda>totals.
        let (v2_sum, ux2_sum) = totals
        in Inr (1/2 * (v2_sum + (cv_c p * cv_c p) * ux2_sum) * cv_dx p)))"

text \<open>One pass of the loop of \<open>run_once\<close>: a step, then a sample once past the burn-in.\<close>

definition run_body ::
  "'g pyrandom \<Rightarrow> int \<Rightarrow> int \<Rightarrow> WaveCavity \<times> 'g \<times> real list
     \<Rightarrow> py_error + (WaveCavity \<times> 'g \<times> real list)" where
  "run_body R steps n s =
     (let (cav, g, energies) = s in
      bind_res (WaveCavity_step R n (cav, g)) (\<lambda>cg.
        let (cav', g') = cg in
        if n > steps div 2 then
          bind_res (WaveCavity_energy cav') (\<lambda>e. Inr (cav', g', energies @ [e]))
        else Inr (cav', g', energies)))"

text \<open>
  \<open>run_once(mode, p)\<close>.  The source returns
  \<open>fmean(energies), (max(energies) if energies else (0.0, 0.0))\<close>: \<open>fmean\<close> is
  evaluated first and raises on an empty sample, so the second component is always the
  maximum.  The generator state left in the module is returned beside the result.
\<close>

definition run_loop ::
  "'g pyrandom \<Rightarrow> CavityParams \<Rightarrow> WaveCavity \<times> 'g
     \<Rightarrow> py_error + (WaveCavity \<times> 'g \<times> real list)" where
  "run_loop R p cg =
     for_res (py_range 0 (cv_steps p)) (run_body R (cv_steps p)) (fst cg, snd cg, [])"

definition run_once ::
  "'g pyrandom \<Rightarrow> 'g \<Rightarrow> string \<Rightarrow> CavityParams \<Rightarrow> py_error + ((real \<times> real) \<times> 'g)" where
  "run_once R g0 mode p =
     bind_res (WaveCavity_init R g0 p mode) (\<lambda>cg.
     bind_res (run_loop R p cg) (\<lambda>s.
       let (cav, g, energies) = s in
       bind_res (fmean energies) (\<lambda>m. Inr ((m, py_max energies), g))))"

section \<open>The parametric oscillator (phi\_pi\_parametric\_sim.py)\<close>

record ParamParams =
  pp_f0 :: real
  pp_Q0 :: real
  pp_beta :: real
  pp_omega_drive_ratio :: real
  pp_m_param :: real
  pp_F0 :: real
  pp_sigma_gamma :: real
  pp_sigma_add :: real
  pp_chaos_phase_sigma :: real
  pp_K_lock :: real
  pp_C_field :: real
  pp_C_affect_gamma :: real
  pp_C_affect_lock :: real
  pp_phi_align :: real
  pp_G_gain :: real
  pp_dt :: real
  pp_T :: real
  pp_seed :: int
  pp_x0_seed :: real
  pp_v0_seed :: real

text \<open>The values \<open>simulate_parametric\<close> computes before its loop, which its closures read.\<close>

record ParamCtx =
  pc_p :: ParamParams
  pc_omega0 :: real
  pc_omega_d :: real
  pc_gamma0 :: real
  pc_K_eff :: real
  pc_dt :: real
  pc_steps :: int
  pc_phase_jitter_scale :: real

record ParamState =
  ps_x :: real
  ps_v :: real
  ps_delta :: real
  ps_t :: real
  ps_E_vals :: "real list"
  ps_x2_vals :: "real list"

text \<open>A float that may be \<open>float('inf')\<close>.\<close>

datatype pyfloat = Fin real | PosInf

record ParamMetrics =
  pm_E_avg :: real
  pm_E_peak :: real
  pm_x_rms :: real
  pm_growth_ratio :: pyfloat

text \<open>Lines 75 to 96: everything up to the loop.  Three of the lines can raise.\<close>

definition parametric_setup :: "bool \<Rightarrow> ParamParams \<Rightarrow> py_error + ParamCtx" where
  "parametric_setup locked p =
     (let omega0 = 2 * pi * pp_f0 p;
          omega_d = pp_omega_drive_ratio p * omega0 in
      bind_res (py_div omega0 (2 * pp_Q0 p)) (\<lambda>gamma0a.
        let gamma0 = max 0 (gamma0a * (1 - pp_C_field p * pp_C_affect_gamma p));
            K_eff = (if locked then pp_K_lock p * (1 + pp_C_field p * pp_C_affect_lock p) else 0);
            dt = pp_dt p in
        bind_res (py_div (pp_T p) dt) (\<lambda>q.
          let steps = py_int q in
          bind_res (py_sqrt dt) (\<lambda>rt.
            Inr \<lparr>pc_p = p, pc_omega0 = omega0, pc_omega_d = omega_d, pc_gamma0 = gamma0,
                  pc_K_eff = K_eff, pc_dt = dt, pc_steps = steps,
                  pc_phase_jitter_scale = pp_chaos_phase_sigma p * rt\<rparr>))))"

definition energy :: "ParamCtx \<Rightarrow> real \<Rightarrow> real \<Rightarrow> real" where
  "energy cx x v =
     1/2 * v * v + 1/2 * pc_omega0 cx * pc_omega0 cx * x * x
       + 1/4 * pp_beta (pc_p cx) * x * x * x * x"

text \<open>The closure \<open>acc\<close>: every call draws from the generator.\<close>

definition acc ::
  "'g pyrandom \<Rightarrow> ParamCtx \<Rightarrow> real \<Rightarrow> real \<Rightarrow> real \<Rightarrow> real \<Rightarrow> real \<Rightarrow> real \<Rightarrow> 'g \<Rightarrow> real \<times> 'g" where
  "acc R cx t_local x_local v_local k_mod gamma_eff delta_phase g =
     (let p = pc_p cx;
          theta = PHI_PI + delta_phase;
          drive = pp_F0 p * cos (pc_omega_d cx * t_local + theta);
          (z, g') = py_gauss R 0 1 g;
          a_noise = pp_sigma_add p * z
      in (- 2 * gamma_eff * v_local - (pc_omega0 cx * pc_omega0 cx + k_mod) * x_local
            - pp_beta p * (x_local ^ 3) + drive + a_noise, g'))"

text \<open>The phase dynamics at the head of the loop body (lock against random walk).\<close>

definition lock_phase_update ::
  "'g pyrandom \<Rightarrow> real \<Rightarrow> real \<Rightarrow> real \<Rightarrow> real \<times> 'g \<Rightarrow> real \<times> 'g" where
  "lock_phase_update R K_eff dt phase_jitter_scale dg =
     (let (delta, g) = dg; (z, g1) = py_gauss R 0 1 g in
      if K_eff > 0 then (delta + (- K_eff * sin delta) * dt + phase_jitter_scale * z, g1)
      else (delta + phase_jitter_scale * z, g1))"

definition parametric_body ::
  "'g pyrandom \<Rightarrow> ParamCtx \<Rightarrow> int \<Rightarrow> ParamState \<times> 'g \<Rightarrow> ParamState \<times> 'g" where
  "parametric_body R cx n sg =
     (let (st, g) = sg; p = pc_p cx; dt = pc_dt cx;
          x = ps_x st; v = ps_v st; t = ps_t st;
          (delta, g1) =
             lock_phase_update R (pc_K_eff cx) dt (pc_phase_jitter_scale cx) (ps_delta st, g);
          (zg, g2) = py_gauss R 0 1 g1;
          gamma_eff = max 0 (pc_gamma0 cx - pp_G_gain p) + pp_sigma_gamma p * zg;
          theta_pump = PHI_PI + delta + pp_phi_align p;
          k_mod = pc_omega0 cx * pc_omega0 cx * pp_m_param p
                    * cos (2 * pc_omega_d cx * t + theta_pump);
          (a1, g3) = acc R cx t x v k_mod gamma_eff delta g2;
          k1x = v; k1v = a1;
          (a2, g4) = acc R cx (t + 1/2 * dt) (x + 1/2 * dt * k1x) (v + 1/2 * dt * k1v)
                        k_mod gamma_eff delta g3;
          k2x = v + 1/2 * dt * k1v; k2v = a2;
          (a3, g5) = acc R cx (t + 1/2 * dt) (x + 1/2 * dt * k2x) (v + 1/2 * dt * k2v)
                        k_mod gamma_eff delta g4;
          k3x = v + 1/2 * dt * k2v; k3v = a3;
          (a4, g6) = acc R cx (t + dt) (x + dt * k3x) (v + dt * k3v) k_mod gamma_eff delta g5;
          k4x = v + dt * k3v; k4v = a4;
          x' = x + (dt / 6) * (k1x + 2 * k2x + 2 * k3x + k4x);
          v' = v + (dt / 6) * (k1v + 2 * k2v + 2 * k3v + k4v);
          t' = t + dt;
          burnt = (n > pc_steps cx div 2)
      in (\<lparr>ps_x = x', ps_v = v', ps_delta = delta, ps_t = t',
            ps_E_vals = (if burnt then ps_E_vals st @ [energy cx x' v'] else ps_E_vals st),
            ps_x2_vals = (if burnt then ps_x2_vals st @ [x' * x'] else ps_x2_vals st)\<rparr>, g6))"

definition parametric_init_state :: "ParamParams \<Rightarrow> ParamState" where
  "parametric_init_state p =
     \<lparr>ps_x = pp_x0_seed p, ps_v = pp_v0_seed p, ps_delta = 0, ps_t = 0,
      ps_E_vals = [], ps_x2_vals = []\<rparr>"

text \<open>The loop: \<open>for n in range(steps)\<close>, from any state.\<close>

definition parametric_loop ::
  "'g pyrandom \<Rightarrow> ParamCtx \<Rightarrow> int \<Rightarrow> ParamState \<times> 'g \<Rightarrow> ParamState \<times> 'g" where
  "parametric_loop R cx steps sg = fold (parametric_body R cx) (py_range 0 steps) sg"

text \<open>
  The growth indicator.  In \<open>E_vals[- m // 10 :]\<close> the unary minus binds first, so the
  slice starts at \<open>(-m) // 10\<close>.
\<close>

definition growth_ratio_of :: "real list \<Rightarrow> py_error + pyfloat" where
  "growth_ratio_of E_vals =
     (if int (length E_vals) \<ge> 20 then
        let m = int (length E_vals) in
        bind_res (fmean (py_slice_to E_vals (m div 10))) (\<lambda>E_head.
        bind_res (fmean (py_slice_from E_vals ((- m) div 10))) (\<lambda>E_tail.
          Inr (if E_head > 0 then Fin (E_tail / E_head) else PosInf)))
      else Inr (Fin 1))"

definition parametric_metrics :: "ParamState \<Rightarrow> py_error + ParamMetrics" where
  "parametric_metrics st =
     (let E_vals = ps_E_vals st; x2_vals = ps_x2_vals st in
      bind_res (if E_vals \<noteq> [] then fmean E_vals else Inr 0) (\<lambda>E_avg.
        let E_peak = (if E_vals \<noteq> [] then py_max E_vals else 0) in
        bind_res (if x2_vals \<noteq> [] then bind_res (fmean x2_vals) py_sqrt else Inr 0) (\<lambda>x_rms.
        bind_res (growth_ratio_of E_vals) (\<lambda>growth_ratio.
          Inr \<lparr>pm_E_avg = E_avg, pm_E_peak = E_peak, pm_x_rms = x_rms,
                pm_growth_ratio = growth_ratio\<rparr>))))"

text \<open>
  \<open>simulate_parametric(locked, p, seed)\<close>.  \<open>g0\<close> is the state of the module's generator
  when the function is entered; the final generator state is returned beside the metrics.
\<close>

definition simulate_parametric ::
  "'g pyrandom \<Rightarrow> 'g \<Rightarrow> bool \<Rightarrow> ParamParams \<Rightarrow> int \<Rightarrow> py_error + (ParamMetrics \<times> 'g)" where
  "simulate_parametric R g0 locked p seed =
     (let g = seed_op R seed in
      bind_res (parametric_setup locked p) (\<lambda>cx.
        let (st, g') = parametric_loop R cx (pc_steps cx) (parametric_init_state p, g) in
        bind_res (parametric_metrics st) (\<lambda>m. Inr (m, g'))))"

section \<open>The driven resonator (phi\_pi\_wireless\_sim.py)\<close>

record SimParams =
  sp_f0 :: real
  sp_Q0 :: real
  sp_beta :: real
  sp_F0 :: real
  sp_omega_drive_ratio :: real
  sp_sigma_drive :: real
  sp_chaos_phase_sigma :: real
  sp_K_lock :: real
  sp_C_field :: real
  sp_C_affect_gamma :: real
  sp_C_affect_lock :: real
  sp_G_gain :: real
  sp_dt :: real
  sp_T :: real

record SimState =
  ss_x :: real
  ss_v :: real
  ss_delta :: real

definition gamma_from_Q :: "real \<Rightarrow> real \<Rightarrow> py_error + real" where
  "gamma_from_Q omega0 Q = py_div omega0 (2 * max Q (1/1000000))"

text \<open>What \<open>simulate\<close> fixes before its loop.\<close>

record SimCtx =
  sc_params :: SimParams
  sc_lock :: bool
  sc_omega0 :: real
  sc_omega_d :: real
  sc_gamma :: real
  sc_K :: real
  sc_n_steps :: int

definition simulate_setup :: "bool \<Rightarrow> SimParams \<Rightarrow> py_error + SimCtx" where
  "simulate_setup lock params =
     (let omega0 = 2 * pi * sp_f0 params;
          omega_d = omega0 * sp_omega_drive_ratio params in
      bind_res (gamma_from_Q omega0 (sp_Q0 params)) (\<lambda>gamma0.
        let gamma = max (1/100000000) (gamma0 * (1 - sp_C_affect_gamma params * sp_C_field params));
            K = (if lock then sp_K_lock params * (1 + sp_C_affect_lock params * sp_C_field params)
                 else 0) in
        bind_res (py_div (sp_T params) (sp_dt params)) (\<lambda>q.
          Inr \<lparr>sc_params = params, sc_lock = lock, sc_omega0 = omega0, sc_omega_d = omega_d,
                sc_gamma = gamma, sc_K = K, sc_n_steps = py_int q\<rparr>)))"

text \<open>
  The closure \<open>derivatives\<close> of one loop pass; \<open>noise_phase\<close> and \<open>drive_noise\<close> are
  the two values drawn at the head of that pass.  It returns \<open>(v, a, d_delta, drive)\<close>.
\<close>

definition derivatives ::
  "SimCtx \<Rightarrow> real \<Rightarrow> real \<Rightarrow> real \<Rightarrow> real \<Rightarrow> real \<Rightarrow> real \<Rightarrow> real \<times> real \<times> real \<times> real" where
  "derivatives cx noise_phase drive_noise x v delta local_t =
     (let params = sc_params cx;
          d_delta = (if sc_lock cx then - sc_K cx * sin delta + noise_phase else noise_phase);
          drive = sp_F0 params * cos (sc_omega_d cx * local_t + PHI_PI + delta) + drive_noise;
          a = - (2 * sc_gamma cx - sp_G_gain params) * v - (sc_omega0 cx)\<^sup>2 * x
                - sp_beta params * (x ^ 3) + drive
      in (v, a, d_delta, drive))"

record SimAcc =
  sa_st :: SimState
  sa_t :: real
  sa_energy_hist :: "real list"
  sa_drive_power_hist :: "real list"
  sa_diss_power_hist :: "real list"
  sa_x_hist :: "real list"

text \<open>
  One pass of the integration loop.  For a negative \<open>dt\<close> the source's \<open>dt ** 0.5\<close> is
  a complex number, and the second stage then calls \<open>math.cos\<close> on a complex phase, which
  raises \<open>TypeError\<close> before the state is touched.
\<close>

definition simulate_body :: "'g pyrandom \<Rightarrow> SimCtx \<Rightarrow> int \<Rightarrow> SimAcc \<times> 'g \<Rightarrow> py_error + (SimAcc \<times> 'g)" where
  "simulate_body R cx i ag =
     (let (a, g) = ag; params = sc_params cx; dt = sp_dt params;
          st = sa_st a; t = sa_t a;
          (z1, g1) = py_gauss R 0 1 g;
          (z2, g2) = py_gauss R 0 1 g1
      in
      if dt < 0 then Inl TypeError
      else
        let noise_phase = sp_chaos_phase_sigma params * z1 * sqrt dt;
            drive_noise = sp_sigma_drive params * z2 * sqrt dt;
            (x1, v1, d1, drv1) =
               derivatives cx noise_phase drive_noise (ss_x st) (ss_v st) (ss_delta st) t;
            (x2, v2, d2, drv2) =
               derivatives cx noise_phase drive_noise (ss_x st + 1/2 * dt * x1)
                 (ss_v st + 1/2 * dt * v1) (ss_delta st + 1/2 * dt * d1) (t + 1/2 * dt);
            (x3, v3, d3, drv3) =
               derivatives cx noise_phase drive_noise (ss_x st + 1/2 * dt * x2)
                 (ss_v st + 1/2 * dt * v2) (ss_delta st + 1/2 * dt * d2) (t + 1/2 * dt);
            (x4, v4, d4, drv4) =
               derivatives cx noise_phase drive_noise (ss_x st + dt * x3)
                 (ss_v st + dt * v3) (ss_delta st + dt * d3) (t + dt);
            st' = \<lparr>ss_x = ss_x st + (dt / 6) * (x1 + 2 * x2 + 2 * x3 + x4),
                   ss_v = ss_v st + (dt / 6) * (v1 + 2 * v2 + 2 * v3 + v4),
                   ss_delta = ss_delta st + (dt / 6) * (d1 + 2 * d2 + 2 * d3 + d4)\<rparr>;
            drive_inst = (drv1 + 2 * drv2 + 2 * drv3 + drv4) / 6;
            energy_inst = 1/2 * ((ss_v st')\<^sup>2 + (sc_omega0 cx)\<^sup>2 * (ss_x st')\<^sup>2)
                            + 1/4 * sp_beta params * (ss_x st') ^ 4;
            p_in_inst = drive_inst * ss_v st';
            p_diss_inst = 2 * sc_gamma cx * (ss_v st')\<^sup>2
        in Inr (\<lparr>sa_st = st', sa_t = t + dt,
                   sa_energy_hist = sa_energy_hist a @ [energy_inst],
                   sa_drive_power_hist = sa_drive_power_hist a @ [p_in_inst],
                   sa_diss_power_hist = sa_diss_power_hist a @ [p_diss_inst],
                   sa_x_hist = sa_x_hist a @ [ss_x st']\<rparr>, g2))"

record SimMetrics =
  sm_E_avg :: real
  sm_E_peak :: real
  sm_x_rms :: real
  sm_P_in_avg :: real
  sm_P_diss_avg :: real
  sm_eff_proxy :: real
  sm_gamma :: real
  sm_K :: real
  sm_omega0 :: real
  sm_omega_d :: real

definition simulate_metrics :: "SimCtx \<Rightarrow> SimAcc \<Rightarrow> py_error + SimMetrics" where
  "simulate_metrics cx a =
     (let half = int (length (sa_energy_hist a)) div 2 in
      bind_res (fmean (py_slice_from (sa_energy_hist a) half)) (\<lambda>E_avg.
        let E_peak = py_max (py_slice_from (sa_energy_hist a) half) in
        bind_res (bind_res (fmean (map (\<lambda>xx. xx * xx) (py_slice_from (sa_x_hist a) half))) py_sqrt)
          (\<lambda>x_rms.
        bind_res (fmean (py_slice_from (sa_drive_power_hist a) half)) (\<lambda>P_in_avg.
        bind_res (fmean (py_slice_from (sa_diss_power_hist a) half)) (\<lambda>P_diss_avg.
          let denom = (if \<bar>P_in_avg\<bar> > 1/1000000000000 then \<bar>P_in_avg\<bar> else 1/1000000000000);
              eff = max 0 (min 2 (\<bar>P_diss_avg\<bar> / denom))
          in Inr \<lparr>sm_E_avg = E_avg, sm_E_peak = E_peak, sm_x_rms = x_rms,
                   sm_P_in_avg = P_in_avg, sm_P_diss_avg = P_diss_avg, sm_eff_proxy = eff,
                   sm_gamma = sc_gamma cx, sm_K = sc_K cx, sm_omega0 = sc_omega0 cx,
                   sm_omega_d = sc_omega_d cx\<rparr>)))))"

definition simulate_init_acc :: "real \<Rightarrow> SimAcc" where
  "simulate_init_acc u =
     \<lparr>sa_st = \<lparr>ss_x = 0, ss_v = 0, ss_delta = (u - 1/2) * 2 * pi\<rparr>, sa_t = 0,
      sa_energy_hist = [], sa_drive_power_hist = [], sa_diss_power_hist = [], sa_x_hist = []\<rparr>"

text \<open>
  \<open>simulate(lock, params, seed)\<close>, with the generator state threaded as above.  The
  initial phase error is drawn with \<open>random.random()\<close> after the damping and the lock
  gain are computed; those cannot raise, so the setup is grouped in \<open>simulate_setup\<close>.
\<close>

definition simulate ::
  "'g pyrandom \<Rightarrow> 'g \<Rightarrow> bool \<Rightarrow> SimParams \<Rightarrow> int \<Rightarrow> py_error + (SimMetrics \<times> 'g)" where
  "simulate R g0 lock params seed =
     (let g = seed_op R seed; (u, g1) = random_op R g in
      bind_res (simulate_setup lock params) (\<lambda>cx.
      bind_res (for_res (py_range 0 (sc_n_steps cx)) (simulate_body R cx)
                  (simulate_init_acc u, g1)) (\<lambda>ag.
      bind_res (simulate_metrics cx (fst ag)) (\<lambda>m. Inr (m, snd ag)))))"

section \<open>Inputs and auxiliary notions used by the statements\<close>



text \<open>
  A one-step configuration in which only the additive noise acts: no stiffness, damping,
  pump or drive, unit additive noise, \<open>dt = T = 1\<close>, the resonator at rest.
\<close>

definition ParamParams_probe :: ParamParams where
  "ParamParams_probe =
     \<lparr>pp_f0 = 0, pp_Q0 = 1, pp_beta = 0, pp_omega_drive_ratio = 1, pp_m_param = 0,
      pp_F0 = 0, pp_sigma_gamma = 0, pp_sigma_add = 1, pp_chaos_phase_sigma = 0,
      pp_K_lock = 0, pp_C_field = 0, pp_C_affect_gamma = 0, pp_C_affect_lock = 0,
      pp_phi_align = 0, pp_G_gain = 0, pp_dt = 1, pp_T = 1, pp_seed = 2,
      pp_x0_seed = 0, pp_v0_seed = 0\<rparr>"

text \<open>Every squared displacement collected so far is non-negative.\<close>

definition x2_nonneg :: "ParamState \<Rightarrow> bool" where
  "x2_nonneg st = list_all (\<lambda>y. 0 \<le> y) (ps_x2_vals st)"

text \<open>
  The growth ratio in the words of the specification, the rounding of the two windows made
  explicit: the head window holds \<open>n div 10\<close> samples, the tail window
  \<open>(n + 9) div 10\<close>.
\<close>

definition growth_ratio_spec :: "real list \<Rightarrow> pyfloat" where
  "growth_ratio_spec E =
     (if length E < 20 then Fin 1
      else if sum_list (take (length E div 10) E) / real (length E div 10) > 0
      then Fin ((sum_list (drop (length E - (length E + 9) div 10) E)
                  / real ((length E + 9) div 10))
                / (sum_list (take (length E div 10) E) / real (length E div 10)))
      else PosInf)"

text \<open>
  The transition rule of the PhaseLockController in the words of the specification:
  locked, \<open>delta + dt * (- K * sin delta) + jitter\<close>; unlocked, \<open>delta + jitter\<close>; the
  jitter is the configured amplitude scaled by \<open>sqrt dt\<close> times a standard normal
  deviate \<open>z\<close>.
\<close>

definition PhaseLockController_spec ::
  "bool \<Rightarrow> real \<Rightarrow> real \<Rightarrow> real \<Rightarrow> real \<Rightarrow> real \<Rightarrow> real" where
  "PhaseLockController_spec locked K dt amplitude z delta =
     (if locked then delta + dt * (- K * sin delta) + amplitude * sqrt dt * z
      else delta + amplitude * sqrt dt * z)"

text \<open>The four arrays of a cavity have the length the constructor gives them.\<close>

definition cavity_wf :: "WaveCavity \<Rightarrow> bool" where
  "cavity_wf cav =
     (let n = nat (cv_N (wc_p cav)) in
      length (wc_u_prev cav) = n \<and> length (wc_u cav) = n \<and> length (wc_u_next cav) = n
      \<and> length (wc_gamma cav) = n)"

text \<open>
  The extra damping the ramp loop of the 1-D constructor adds in pass \<open>i\<close>, and the
  profile after the passes \<open>0, ..., k - 1\<close>.
\<close>

definition pml_ramp :: "CavityParams \<Rightarrow> int \<Rightarrow> real" where
  "pml_ramp p i = cv_pml_max p * of_int (i + 1) / of_int (cv_pml_len p)"

definition pml_profile :: "CavityParams \<Rightarrow> int \<Rightarrow> real list" where
  "pml_profile p k =
     map (\<lambda>j. cv_gamma_interior p
                + (if int j < k then pml_ramp p (int j) else 0)
                + (if cv_N p - 1 - int j < k then pml_ramp p (cv_N p - 1 - int j) else 0))
         [0..<nat (cv_N p)]"

text \<open>
  The extra damping the 3-D constructor gives the node \<open>(i, j, k)\<close>, and the profile
  once the three nested loops have reached the flat index \<open>t\<close>; the loops visit the flat
  indices in increasing order.
\<close>

definition pml3_extra :: "P3D \<Rightarrow> int \<Rightarrow> int \<Rightarrow> int \<Rightarrow> real" where
  "pml3_extra p i j k =
     (if pml3_depth (p3_N p) i j k < p3_pml_len p
      then p3_pml_max p * of_int (p3_pml_len p - pml3_depth (p3_N p) i j k) / of_int (p3_pml_len p)
      else 0)"

definition pml3_profile :: "P3D \<Rightarrow> int \<Rightarrow> real list" where
  "pml3_profile p t =
     map (\<lambda>n. p3_gamma_interior p
                + (if int n < t
                   then pml3_extra p (int n mod p3_N p) ((int n div p3_N p) mod p3_N p)
                          (int n div (p3_N p * p3_N p))
                   else 0))
         [0..<nat (p3_N p * p3_N p * p3_N p)]"

text \<open>
  The value the interior update gives node \<open>j\<close>, and \<open>u_next\<close> after the interior loop
  has handled the nodes below \<open>k\<close>.
\<close>

definition interior_value :: "WaveCavity \<Rightarrow> nat \<Rightarrow> real" where
  "interior_value cav j =
     (2 - 2 * (wc_gamma cav ! j) * cv_dt (wc_p cav)) * (wc_u cav ! j)
       - (1 - (wc_gamma cav ! j) * cv_dt (wc_p cav)) * (wc_u_prev cav ! j)
       + wc_r cav * wc_r cav * (wc_u cav ! (j + 1) - 2 * (wc_u cav ! j) + wc_u cav ! (j - 1))"

definition interior_profile :: "WaveCavity \<Rightarrow> real list \<Rightarrow> int \<Rightarrow> real list" where
  "interior_profile cav un k =
     map (\<lambda>j. if 1 \<le> j \<and> int j < k then interior_value cav j else un ! j) [0..<length un]"

definition edge_value :: "WaveCavity \<Rightarrow> nat \<Rightarrow> real" where
  "edge_value cav j = (if wc_mode cav = ''confined'' then 0 else wc_u cav ! j)"

text \<open>A freshly constructed default cavity whose source index lies far outside the grid.\<close>

definition WaveCavity_far_source :: WaveCavity where
  "WaveCavity_far_source =
     fst (projr (WaveCavity_init counting_random 0
                   (CavityParams_default\<lparr>cv_i_src := 1000\<rparr>) ''confined''))"




text \<open>
  The context \<open>simulate_parametric\<close> computes for the probe configuration with lock gain
  \<open>K\<close> (no jitter, \<open>dt = 1\<close>), and a resting oscillator state with phase error \<open>delta\<close>.
\<close>

definition ParamCtx_lock :: "real \<Rightarrow> ParamCtx" where
  "ParamCtx_lock K =
     \<lparr>pc_p = ParamParams_probe\<lparr>pp_K_lock := K\<rparr>, pc_omega0 = 0, pc_omega_d = 0, pc_gamma0 = 0,
      pc_K_eff = K, pc_dt = 1, pc_steps = 1, pc_phase_jitter_scale = 0\<rparr>"


section \<open>Basic facts about the Python layer\<close>

lemma bind_res_simps [simp]:
  "bind_res (Inl e) f = Inl e"
  "bind_res (Inr x) f = f x"
  by (simp_all add: bind_res_def)

lemma py_div_gt: "t < a / b \<Longrightarrow> 0 \<le> t \<Longrightarrow> py_div a b = Inr (a / b)"
  by (auto simp: py_div_def)

section \<open>Stability precondition\<close>

text \<open>
  Claim C1.  A field simulation whose Courant number \<open>c * dt / dx\<close> exceeds
  \<open>1 / sqrt d\<close> is refused by its constructor, before any step.  In one dimension
  (\<open>WaveCavity\<close>) and in three (\<open>Wave3D\<close>) the constructor raises, and so does
  \<open>run_once\<close>, which never reaches its loop.  The two-dimensional constructor
  (\<open>Sim2D\<close>) takes only the grid size: its Courant number is the literal
  \<open>1 * 0.45 / 1\<close>, so no two-dimensional simulation above \<open>1 / sqrt 2\<close> is ever
  constructed.
\<close>

theorem courant_violation_rejected:
  "(cv_c p1 * cv_dt p1 / cv_dx p1 > 1 / sqrt 1 \<longrightarrow>
      WaveCavity_init R g0 p1 mode =
        Inl (if mode = ''confined'' \<or> mode = ''open'' then ValueError else AssertionError)
      \<and> run_once R g0 mode p1 =
        Inl (if mode = ''confined'' \<or> mode = ''open'' then ValueError else AssertionError))
   \<and> (p3_c p3 * p3_dt p3 / p3_dx p3 > 1 / sqrt 3 \<longrightarrow>
      Wave3D_init R g0 p3 mode =
        Inl (if mode = ''confined'' \<or> mode = ''open'' then ValueError else AssertionError))
   \<and> (\<forall>s g. Sim2D_init R g0 W H = Inr (s, g) \<longrightarrow>
         s2_r s = s2_c s * s2_dt s / s2_dx s \<and> \<not> s2_r s > 1 / sqrt 2)"
proof (intro conjI impI allI)
  assume h: "cv_c p1 * cv_dt p1 / cv_dx p1 > 1 / sqrt 1"
  then have d: "py_div (cv_c p1 * cv_dt p1) (cv_dx p1) = Inr (cv_c p1 * cv_dt p1 / cv_dx p1)"
    by (intro py_div_gt[where t=1]) auto
  show i: "WaveCavity_init R g0 p1 mode =
        Inl (if mode = ''confined'' \<or> mode = ''open'' then ValueError else AssertionError)"
    using h by (auto simp: WaveCavity_init_def d Let_def)
  show "run_once R g0 mode p1 =
        Inl (if mode = ''confined'' \<or> mode = ''open'' then ValueError else AssertionError)"
    unfolding run_once_def i by simp
next
  assume h: "p3_c p3 * p3_dt p3 / p3_dx p3 > 1 / sqrt 3"
  then have d: "py_div (p3_c p3 * p3_dt p3) (p3_dx p3) = Inr (p3_c p3 * p3_dt p3 / p3_dx p3)"
    by (intro py_div_gt[where t="1 / sqrt 3"]) auto
  show "Wave3D_init R g0 p3 mode =
        Inl (if mode = ''confined'' \<or> mode = ''open'' then ValueError else AssertionError)"
    using h by (auto simp: Wave3D_init_def d Let_def)
next
  fix s g assume "Sim2D_init R g0 W H = Inr (s, g)"
  then have s: "s2_r s = 45/100" "s2_c s = 1" "s2_dt s = 45/100" "s2_dx s = 1"
    by (auto simp: Sim2D_init_def py_div_def Let_def)
  show "s2_r s = s2_c s * s2_dt s / s2_dx s" by (simp add: s)
  have "sqrt 2 < 2" by (simp add: real_less_lsqrt)
  then have "(45/100::real) \<le> 1 / sqrt 2" by (simp add: field_simps)
  then show "\<not> s2_r s > 1 / sqrt 2" by (simp add: s)
qed

theorem courant_violation_rejected_witness:
  "cv_c (CavityParams_default\<lparr>cv_dt := 2\<rparr>) * cv_dt (CavityParams_default\<lparr>cv_dt := 2\<rparr>)
      / cv_dx (CavityParams_default\<lparr>cv_dt := 2\<rparr>) > 1 / sqrt 1
   \<and> WaveCavity_init counting_random 0 (CavityParams_default\<lparr>cv_dt := 2\<rparr>) ''open''
       = Inl ValueError
   \<and> run_once counting_random 0 ''open'' (CavityParams_default\<lparr>cv_dt := 2\<rparr>) = Inl ValueError
   \<and> p3_c (P3D_default\<lparr>p3_dt := 1\<rparr>) * p3_dt (P3D_default\<lparr>p3_dt := 1\<rparr>)
      / p3_dx (P3D_default\<lparr>p3_dt := 1\<rparr>) > 1 / sqrt 3
   \<and> Wave3D_init counting_random 0 (P3D_default\<lparr>p3_dt := 1\<rparr>) ''open'' = Inl ValueError
   \<and> (\<exists>s g. Sim2D_init counting_random 0 60 24 = Inr (s, g) \<and> s2_r s = 45/100
          \<and> \<not> s2_r s > 1 / sqrt 2)"
proof -
  have a: "cv_c (CavityParams_default\<lparr>cv_dt := 2\<rparr>) * cv_dt (CavityParams_default\<lparr>cv_dt := 2\<rparr>)
      / cv_dx (CavityParams_default\<lparr>cv_dt := 2\<rparr>) > 1 / sqrt 1"
    by (simp add: CavityParams_default_def)
  have "sqrt 3 > 1" by simp
  then have b: "p3_c (P3D_default\<lparr>p3_dt := 1\<rparr>) * p3_dt (P3D_default\<lparr>p3_dt := 1\<rparr>)
      / p3_dx (P3D_default\<lparr>p3_dt := 1\<rparr>) > 1 / sqrt 3"
    by (simp add: P3D_default_def)
  obtain s g where c: "Sim2D_init counting_random (0::nat) 60 24 = Inr (s, g)" "s2_r s = 45/100"
    by (simp add: Sim2D_init_def py_div_def Let_def)
  note t = courant_violation_rejected
    [of "CavityParams_default\<lparr>cv_dt := 2\<rparr>" counting_random 0 "''open''"
        "P3D_default\<lparr>p3_dt := 1\<rparr>" 60 24]
  from t a have "WaveCavity_init counting_random 0 (CavityParams_default\<lparr>cv_dt := 2\<rparr>) ''open''
       = Inl ValueError"
    "run_once counting_random 0 ''open'' (CavityParams_default\<lparr>cv_dt := 2\<rparr>) = Inl ValueError"
    by simp_all
  moreover from t b have
    "Wave3D_init counting_random 0 (P3D_default\<lparr>p3_dt := 1\<rparr>) ''open'' = Inl ValueError"
    by simp
  moreover from t c have "\<not> s2_r s > 1 / sqrt 2" by blast
  ultimately show ?thesis using a b c by blast
qed

section \<open>Noise within one Runge-Kutta step\<close>

lemma acc_draws: "snd (acc R cx t x v k ge d g) = snd (gauss_op R g)"
  by (simp add: acc_def py_gauss_def Let_def split_beta)

lemma lock_phase_update_draws:
  "snd (lock_phase_update R K dt sc (d, g)) = snd (gauss_op R g)"
  by (simp add: lock_phase_update_def py_gauss_def Let_def split_beta)

lemma py_range_0_1: "py_range 0 1 = [0]"
  by (simp add: py_range_def)

lemma parametric_setup_probe:
  "parametric_setup False ParamParams_probe =
     Inr \<lparr>pc_p = ParamParams_probe, pc_omega0 = 0, pc_omega_d = 0, pc_gamma0 = 0,
          pc_K_eff = 0, pc_dt = 1, pc_steps = 1, pc_phase_jitter_scale = 0\<rparr>"
  by (simp add: parametric_setup_def ParamParams_probe_def py_div_def py_sqrt_def py_int_def
      Let_def)

lemma parametric_loop_probe:
  "parametric_loop counting_random
     \<lparr>pc_p = ParamParams_probe, pc_omega0 = 0, pc_omega_d = 0, pc_gamma0 = 0,
      pc_K_eff = 0, pc_dt = 1, pc_steps = 1, pc_phase_jitter_scale = 0\<rparr> 1
     (parametric_init_state ParamParams_probe, seed_op counting_random 1)
   = (\<lparr>ps_x = 3/2, ps_v = 7/2, ps_delta = 0, ps_t = 1, ps_E_vals = [], ps_x2_vals = []\<rparr>, 6)"
  by (simp add: parametric_loop_def py_range_0_1 parametric_body_def parametric_init_state_def
      lock_phase_update_def acc_def py_gauss_def counting_random_def ParamParams_probe_def
      Let_def)

text \<open>
  Claim C2, evaluated on the code.  The claim has every noise term of a Runge-Kutta step
  drawn once and reused by the four stages.  One pass of the loop of
  \<open>simulate_parametric\<close> draws six deviates, for every generator and state: one for the
  phase, one for the damping, and one inside each of the four calls of \<open>acc\<close>.  With the
  probe configuration and a generator whose \<open>k\<close>-th deviate is \<open>k\<close>, the four stages
  see the additive noises 2, 3, 4 and 5 and the step ends at \<open>x = 3/2\<close>, \<open>v = 7/2\<close>;
  a single frozen draw (2 in all four stages) would end at \<open>x = 1\<close>, \<open>v = 2\<close>.
\<close>

theorem parametric_step_redraws_additive_noise:
  "snd (parametric_body R cx n (st, g)) = ((\<lambda>h. snd (gauss_op R h)) ^^ 6) g
   \<and> (\<exists>cx0. parametric_setup False ParamParams_probe = Inr cx0
         \<and> pc_steps cx0 = 1
         \<and> parametric_loop counting_random cx0 (pc_steps cx0)
              (parametric_init_state ParamParams_probe, seed_op counting_random 1)
            = (\<lparr>ps_x = 3/2, ps_v = 7/2, ps_delta = 0, ps_t = 1,
                 ps_E_vals = [], ps_x2_vals = []\<rparr>, 6))"
proof
  show "snd (parametric_body R cx n (st, g)) = ((\<lambda>h. snd (gauss_op R h)) ^^ 6) g"
    by (simp add: parametric_body_def Let_def split_beta acc_draws lock_phase_update_draws
        py_gauss_def eval_nat_numeral)
  show "\<exists>cx0. parametric_setup False ParamParams_probe = Inr cx0
         \<and> pc_steps cx0 = 1
         \<and> parametric_loop counting_random cx0 (pc_steps cx0)
              (parametric_init_state ParamParams_probe, seed_op counting_random 1)
            = (\<lparr>ps_x = 3/2, ps_v = 7/2, ps_delta = 0, ps_t = 1,
                 ps_E_vals = [], ps_x2_vals = []\<rparr>, 6)"
    using parametric_loop_probe by (simp add: parametric_setup_probe)
qed

text \<open>
  The loop of \<open>simulate\<close>, by contrast, draws its phase noise and its drive noise once
  per pass, before the four stages, which all receive the same two values.
\<close>

lemma simulate_body_draws:
  assumes "simulate_body R cx i (a, g) = Inr (a', g')"
  shows "g' = snd (gauss_op R (snd (gauss_op R g)))"
  using assms
  by (auto simp: simulate_body_def py_gauss_def Let_def split_beta split: if_splits)

section \<open>Determinism of a run\<close>

text \<open>
  Claim C5.  The functions of a run are functions of their arguments, so two executions
  with the same parameters and seed can differ only through the state in which they find
  the module-level generator.  Each run replaces that state by seeding before its first
  draw: the result of a run (metrics, and the generator state it leaves), the constructed
  cavity, and the cavity state with its energy samples after any number \<open>n\<close> of steps are
  the same whatever the generator state \<open>g0\<close> or \<open>g0'\<close> on entry.
\<close>

theorem runs_independent_of_prior_generator_state:
  "run_once R g0 mode p = run_once R g0' mode p
   \<and> WaveCavity_init R g0 p mode = WaveCavity_init R g0' p mode
   \<and> bind_res (WaveCavity_init R g0 p mode)
        (\<lambda>cg. for_res (py_range 0 n) (run_body R (cv_steps p)) (fst cg, snd cg, []))
      = bind_res (WaveCavity_init R g0' p mode)
        (\<lambda>cg. for_res (py_range 0 n) (run_body R (cv_steps p)) (fst cg, snd cg, []))
   \<and> simulate_parametric R g0 locked pp seed = simulate_parametric R g0' locked pp seed
   \<and> simulate R g0 lock sp seed = simulate R g0' lock sp seed"
  by (simp add: run_once_def WaveCavity_init_def simulate_parametric_def simulate_def)

section \<open>The phase update of the field simulation against the controller\<close>

lemma lock_phase_update_is_controller:
  "fst (lock_phase_update R K dt (amplitude * sqrt dt) (delta, g)) =
     PhaseLockController_spec (K > 0) K dt amplitude (fst (gauss_op R g)) delta"
  by (simp add: lock_phase_update_def py_gauss_def PhaseLockController_spec_def split_beta
      mult.commute)




section \<open>The parametric run: setup, loop and metrics\<close>



lemma parametric_body_fields:
  "ps_t (fst (parametric_body R cx n sg)) = ps_t (fst sg) + pc_dt cx"
  "ps_x2_vals (fst (parametric_body R cx n sg)) =
     (if n > pc_steps cx div 2
      then ps_x2_vals (fst sg)
             @ [ps_x (fst (parametric_body R cx n sg)) * ps_x (fst (parametric_body R cx n sg))]
      else ps_x2_vals (fst sg))"
  "length (ps_E_vals (fst (parametric_body R cx n sg))) =
     (if n > pc_steps cx div 2 then Suc (length (ps_E_vals (fst sg)))
      else length (ps_E_vals (fst sg)))"
  by (simp_all add: parametric_body_def Let_def split_beta)

lemma parametric_body_x2_nonneg:
  "x2_nonneg (fst sg) \<Longrightarrow> x2_nonneg (fst (parametric_body R cx n sg))"
  by (simp add: x2_nonneg_def parametric_body_fields(2))

lemma fold_body_x2_nonneg:
  "x2_nonneg (fst sg) \<Longrightarrow> x2_nonneg (fst (fold (parametric_body R cx) ns sg))"
  by (induction ns arbitrary: sg) (simp_all add: parametric_body_x2_nonneg)


lemma fold_body_samples:
  "length (ps_E_vals (fst (fold (parametric_body R cx) ns sg)))
     \<le> length (ps_E_vals (fst sg)) + length ns"
proof (induction ns arbitrary: sg)
  case Nil
  then show ?case by simp
next
  case (Cons n ns)
  have "length (ps_E_vals (fst (parametric_body R cx n sg))) \<le> Suc (length (ps_E_vals (fst sg)))"
    by (simp add: parametric_body_fields(3))
  with Cons[of "parametric_body R cx n sg"] show ?case by simp
qed

lemma length_py_range: "length (py_range a b) = nat (b - a)"
  by (simp add: py_range_def)

lemma sum_list_nonneg_all: "list_all (\<lambda>y. 0 \<le> y) xs \<Longrightarrow> 0 \<le> sum_list (xs::real list)"
  by (induction xs) simp_all

lemma neg_div10: "(- m) div 10 = - ((m + 9) div (10::int))"
proof -
  define t where "t = (m + 9) div 10"
  define s where "s = (m + 9) mod 10"
  have "m + 9 = 10 * t + s" "0 \<le> s" "s < 10"
    by (simp_all add: t_def s_def)
  then have "- m = 10 * (- t) + (9 - s)" "0 \<le> 9 - s" "9 - s < 10"
    by linarith+
  then have "(- m) div 10 = - t"
    by (rule int_div_pos_eq)
  then show ?thesis by (simp add: t_def)
qed

text \<open>The reduction never raises, and is the guarded quotient of the two window means.\<close>

lemma growth_ratio_of_eq: "growth_ratio_of E = Inr (growth_ratio_spec E)"
proof (cases "length E < 20")
  case True
  then show ?thesis by (simp add: growth_ratio_of_def growth_ratio_spec_def)
next
  case False
  define n where "n = length E"
  define h where "h = n div 10"
  define t where "t = (n + 9) div 10"
  have n: "20 \<le> n" using False by (simp add: n_def)
  have hb: "0 < h" "h \<le> n" and tb: "0 < t" "t \<le> n"
    using n by (auto simp: h_def t_def)
  have ih: "int n div 10 = int h" by (simp add: h_def)
  have it: "(- int n) div 10 = - int t" unfolding neg_div10 by (simp add: t_def)
  have sh: "py_slice_to E (int n div 10) = take h E"
    unfolding ih using hb by (simp add: py_slice_to_def Let_def n_def[symmetric])
  have "nat (int n - int t) = n - t" by simp
  then have st: "py_slice_from E ((- int n) div 10) = drop (n - t) E"
    unfolding it using tb by (simp add: py_slice_from_def Let_def n_def[symmetric])
  have lh: "length (take h E) = h" using hb by (simp add: n_def)
  have lt: "length (drop (n - t) E) = t" using tb by (simp add: n_def)
  have hne: "take h E \<noteq> []" using lh hb by auto
  have tne: "drop (n - t) E \<noteq> []" using lt tb by auto
  have fh: "fmean (take h E) = Inr (sum_list (take h E) / real h)"
    unfolding fmean_def lh using hne by simp
  have ft: "fmean (drop (n - t) E) = Inr (sum_list (drop (n - t) E) / real t)"
    unfolding fmean_def lt using tne by simp
  have "growth_ratio_of E =
      Inr (if sum_list (take h E) / real h > 0
           then Fin ((sum_list (drop (n - t) E) / real t) / (sum_list (take h E) / real h))
           else PosInf)"
    using n unfolding growth_ratio_of_def n_def[symmetric] Let_def sh st fh ft
    by simp
  then show ?thesis using False by (simp add: growth_ratio_spec_def n_def h_def t_def)
qed

lemma parametric_metrics_ok:
  assumes "x2_nonneg st"
  shows "\<exists>m. parametric_metrics st = Inr m \<and> pm_growth_ratio m = growth_ratio_spec (ps_E_vals st)"
proof -
  have "0 \<le> sum_list (ps_x2_vals st) / real (length (ps_x2_vals st))"
    using assms by (simp add: x2_nonneg_def sum_list_nonneg_all)
  then have "\<not> sum_list (ps_x2_vals st) / real (length (ps_x2_vals st)) < 0"
    by linarith
  then show ?thesis
    by (simp add: parametric_metrics_def Let_def fmean_def py_sqrt_def growth_ratio_of_eq)
qed

text \<open>Once the setup has succeeded nothing in the run can raise.\<close>

lemma simulate_parametric_returns:
  assumes "parametric_setup locked p = Inr cx"
  shows "\<exists>m g'. simulate_parametric R g0 locked p seed = Inr (m, g')
     \<and> pm_growth_ratio m = growth_ratio_spec (ps_E_vals (fst (parametric_loop R cx (pc_steps cx)
                 (parametric_init_state p, seed_op R seed))))"
proof -
  have "x2_nonneg (fst (parametric_loop R cx (pc_steps cx)
          (parametric_init_state p, seed_op R seed)))"
    unfolding parametric_loop_def
    by (rule fold_body_x2_nonneg) (simp add: x2_nonneg_def parametric_init_state_def)
  from parametric_metrics_ok[OF this] show ?thesis
    by (auto simp: simulate_parametric_def assms Let_def split_beta)
qed


section \<open>Growth ratio\<close>

text \<open>
  Claim C4.  Whenever \<open>simulate_parametric\<close> returns, its setup succeeded and the
  growth ratio it reports is determined by the energy samples \<open>E\<close> collected after the
  burn-in: exactly 1 when there are fewer than 20 of them; otherwise the mean of the last
  tenth divided by the mean of the first tenth, or positive infinity when the mean of the
  first tenth is not greater than 0.  The first tenth is the first \<open>n div 10\<close> samples
  and the last tenth the last \<open>(n + 9) div 10\<close> samples (the slice \<open>E_vals[- m // 10 :]\<close>
  rounds the other way), so the two windows have the same size exactly when 10 divides
  \<open>n\<close>.
\<close>

theorem growth_ratio_guards:
  assumes "simulate_parametric R g0 locked p seed = Inr (m, g')"
  shows "\<exists>cx. parametric_setup locked p = Inr cx \<and>
     (let E = ps_E_vals (fst (parametric_loop R cx (pc_steps cx)
                 (parametric_init_state p, seed_op R seed)));
          n = length E; h = n div 10; t = (n + 9) div 10
      in pm_growth_ratio m =
           (if n < 20 then Fin 1
            else if sum_list (take h E) / real h > 0
            then Fin ((sum_list (drop (n - t) E) / real t) / (sum_list (take h E) / real h))
            else PosInf))"
proof (cases "parametric_setup locked p")
  case (Inl e)
  with assms show ?thesis by (simp add: simulate_parametric_def)
next
  case (Inr cx)
  from simulate_parametric_returns[OF Inr, of R g0 seed] assms
  have "pm_growth_ratio m = growth_ratio_spec (ps_E_vals (fst (parametric_loop R cx (pc_steps cx)
                 (parametric_init_state p, seed_op R seed))))"
    by auto
  with Inr show ?thesis by (simp add: growth_ratio_spec_def Let_def)
qed

lemma simulate_parametric_probe:
  "simulate_parametric counting_random 0 False ParamParams_probe 1 =
     Inr (\<lparr>pm_E_avg = 0, pm_E_peak = 0, pm_x_rms = 0, pm_growth_ratio = Fin 1\<rparr>, 6)"
  using parametric_loop_probe
  by (simp add: simulate_parametric_def parametric_setup_probe parametric_metrics_def
      growth_ratio_of_def)

theorem growth_ratio_guards_witness:
  "simulate_parametric counting_random 0 False ParamParams_probe 1 =
     Inr (\<lparr>pm_E_avg = 0, pm_E_peak = 0, pm_x_rms = 0, pm_growth_ratio = Fin 1\<rparr>, 6)
   \<and> (\<exists>cx. parametric_setup False ParamParams_probe = Inr cx \<and>
       length (ps_E_vals (fst (parametric_loop counting_random cx (pc_steps cx)
                 (parametric_init_state ParamParams_probe, seed_op counting_random 1)))) < 20)"
proof -
  note h = simulate_parametric_probe
  from growth_ratio_guards[OF h] obtain cx
    where cx: "parametric_setup False ParamParams_probe = Inr cx"
    by blast
  then have "pc_steps cx = 1" by (auto simp: parametric_setup_probe)
  then have "length (ps_E_vals (fst (parametric_loop counting_random cx (pc_steps cx)
                 (parametric_init_state ParamParams_probe, seed_op counting_random 1)))) < 20"
    using fold_body_samples[of counting_random cx "py_range 0 1"
       "(parametric_init_state ParamParams_probe, seed_op counting_random 1)"]
    by (simp add: parametric_loop_def parametric_init_state_def length_py_range)
  with cx h show ?thesis by blast
qed

text \<open>
  On the 25 samples 1, 2, ..., 25 the head window is \<open>[1, 2]\<close> and the tail window
  \<open>[23, 24, 25]\<close>: the ratio is \<open>24 / 1.5\<close>.
\<close>

lemma growth_ratio_of_25: "growth_ratio_of (map real [1..<26]) = Inr (Fin 16)"
  by (simp add: growth_ratio_of_eq growth_ratio_spec_def upt_rec)

section \<open>Malformed oscillator configurations\<close>










section \<open>The arrays of the 1-D cavity\<close>

lemma py_index_in: "0 \<le> i \<Longrightarrow> i < int (length xs) \<Longrightarrow> py_index xs i = Inr (nat i)"
  by (simp add: py_index_def)

lemma py_get_in: "0 \<le> i \<Longrightarrow> i < int (length xs) \<Longrightarrow> py_get xs i = Inr (xs ! nat i)"
  by (simp add: py_get_def py_index_in)

lemma py_set_in: "0 \<le> i \<Longrightarrow> i < int (length xs) \<Longrightarrow> py_set xs i v = Inr (xs[nat i := v])"
  by (simp add: py_set_def py_index_in)

lemma py_add_at_in:
  "0 \<le> i \<Longrightarrow> i < int (length xs) \<Longrightarrow> py_add_at xs i v = Inr (xs[nat i := xs ! nat i + v])"
  by (simp add: py_add_at_def py_get_in py_set_in)

lemma for_res_append:
  "for_res (xs @ ys) f s = bind_res (for_res xs f s) (for_res ys f)"
  by (induction xs arbitrary: s) (auto simp: bind_res_def split: sum.splits)

lemma py_range_snoc: "a \<le> b \<Longrightarrow> py_range a (b + 1) = py_range a b @ [b]"
  by (simp add: py_range_def upto_rec2)

lemma pml_body_profile:
  assumes "0 \<le> k" "k < cv_N p"
  shows "pml_body p k (pml_profile p k) = Inr (pml_profile p (k + 1))"
proof -
  let ?N = "cv_N p"
  have len: "length (pml_profile p k) = nat ?N" by (simp add: pml_profile_def)
  have k2: "0 \<le> ?N - 1 - k" "?N - 1 - k < ?N" using assms by auto
  let ?g = "pml_ramp p k"
  let ?a = "(pml_profile p k)[nat k := pml_profile p k ! nat k + ?g]"
  have s1: "py_add_at (pml_profile p k) k ?g = Inr ?a"
    using assms by (intro py_add_at_in) (auto simp: len)
  have s2: "py_add_at ?a (?N - 1 - k) ?g = Inr (?a[nat (?N - 1 - k) := ?a ! nat (?N - 1 - k) + ?g])"
    using k2 by (intro py_add_at_in) (auto simp: len)
  have "?a[nat (?N - 1 - k) := ?a ! nat (?N - 1 - k) + ?g] = pml_profile p (k + 1)"
  proof (rule nth_equalityI)
    show "length (?a[nat (?N - 1 - k) := ?a ! nat (?N - 1 - k) + ?g]) = length (pml_profile p (k + 1))"
      by (simp add: pml_profile_def)
  next
    fix j assume "j < length (?a[nat (?N - 1 - k) := ?a ! nat (?N - 1 - k) + ?g])"
    then have j: "j < nat ?N" by (simp add: len)
    have eqs: "(j = nat k) = (int j = k)" "(j = nat (?N - 1 - k)) = (?N - 1 - int j = k)"
       "(nat k = nat (?N - 1 - k)) = (k = ?N - 1 - k)"
      using assms k2 j by auto
    show "?a[nat (?N - 1 - k) := ?a ! nat (?N - 1 - k) + ?g] ! j = pml_profile p (k + 1) ! j"
      using j assms k2
      by (auto simp: nth_list_update len eqs pml_profile_def)
  qed
  moreover have "cv_pml_max p * of_int (k + 1) / of_int (cv_pml_len p) = ?g"
    by (simp only: pml_ramp_def)
  ultimately show ?thesis
    by (simp only: pml_body_def Let_def s1 s2 bind_res_simps)
qed

lemma pml_loop_profile:
  "int k \<le> cv_N p \<Longrightarrow>
   for_res (py_range 0 (int k)) (pml_body p) (pml_profile p 0) = Inr (pml_profile p (int k))"
proof (induction k)
  case 0
  then show ?case by (simp add: py_range_def)
next
  case (Suc k)
  then have "int k < cv_N p" "int k \<le> cv_N p" by auto
  moreover have "py_range 0 (int (Suc k)) = py_range 0 (int k) @ [int k]"
    using py_range_snoc[of 0 "int k"] by (simp add: add.commute)
  ultimately show ?case
    using Suc.IH pml_body_profile[of "int k" p] by (simp add: for_res_append add.commute)
qed

lemma pml_profile_0: "pml_profile p 0 = py_replicate (cv_N p) (cv_gamma_interior p)"
  by (auto simp: pml_profile_def py_replicate_def intro!: nth_equalityI)

lemma cavity_gamma_open:
  assumes "0 \<le> cv_pml_len p" "cv_pml_len p \<le> cv_N p"
  shows "cavity_gamma p ''open'' = Inr (pml_profile p (cv_pml_len p))"
  using pml_loop_profile[of "nat (cv_pml_len p)" p] assms
  by (simp add: cavity_gamma_def Let_def pml_profile_0)


lemma cavity_interior_profile:
  assumes wf: "cavity_wf cav" and un: "length un = nat (cv_N (wc_p cav))"
    and k: "1 \<le> k" "k \<le> cv_N (wc_p cav) - 2"
  shows "cavity_interior cav k (interior_profile cav un k) = Inr (interior_profile cav un (k + 1))"
proof -
  let ?N = "cv_N (wc_p cav)"
  from wf have len: "length (wc_u cav) = nat ?N" "length (wc_u_prev cav) = nat ?N"
      "length (wc_gamma cav) = nat ?N"
    by (simp_all add: cavity_wf_def Let_def)
  have g: "py_get (wc_u cav) (k + 1) = Inr (wc_u cav ! nat (k + 1))"
          "py_get (wc_u cav) k = Inr (wc_u cav ! nat k)"
          "py_get (wc_u cav) (k - 1) = Inr (wc_u cav ! nat (k - 1))"
          "py_get (wc_gamma cav) k = Inr (wc_gamma cav ! nat k)"
          "py_get (wc_u_prev cav) k = Inr (wc_u_prev cav ! nat k)"
    using k by (simp_all add: py_get_in len)
  have idx: "nat (k + 1) = nat k + 1" "nat (k - 1) = nat k - 1"
    using k by (simp_all add: nat_add_distrib nat_diff_distrib)
  have lp: "length (interior_profile cav un k) = nat ?N"
    by (simp add: interior_profile_def un)
  have st: "py_set (interior_profile cav un k) k v = Inr ((interior_profile cav un k)[nat k := v])" for v
    using k by (simp add: py_set_in lp)
  have "(interior_profile cav un k)[nat k := interior_value cav (nat k)]
          = interior_profile cav un (k + 1)"
  proof (rule nth_equalityI)
    show "length ((interior_profile cav un k)[nat k := interior_value cav (nat k)])
            = length (interior_profile cav un (k + 1))"
      by (simp add: interior_profile_def)
  next
    fix j assume "j < length ((interior_profile cav un k)[nat k := interior_value cav (nat k)])"
    then have j: "j < length un" by (simp add: interior_profile_def)
    have "(j = nat k) = (int j = k)" using k by auto
    then show "(interior_profile cav un k)[nat k := interior_value cav (nat k)] ! j
            = interior_profile cav un (k + 1) ! j"
      using j k by (auto simp: nth_list_update interior_profile_def)
  qed
  then show ?thesis
    by (simp add: cavity_interior_def Let_def g st interior_value_def idx)
qed

lemma interior_profile_1: "interior_profile cav un 1 = un"
  by (auto simp: interior_profile_def intro!: nth_equalityI)

lemma cavity_interior_loop:
  assumes wf: "cavity_wf cav" and un: "length un = nat (cv_N (wc_p cav))"
  shows "1 + int m \<le> cv_N (wc_p cav) - 1 \<Longrightarrow>
     for_res (py_range 1 (1 + int m)) (cavity_interior cav) un
       = Inr (interior_profile cav un (1 + int m))"
proof (induction m)
  case 0
  then show ?case by (simp add: py_range_def interior_profile_1)
next
  case (Suc m)
  then have b: "1 \<le> 1 + int m" "1 + int m \<le> cv_N (wc_p cav) - 2" by auto
  have "py_range 1 (1 + int (Suc m)) = py_range 1 (1 + int m) @ [1 + int m]"
    using py_range_snoc[of 1 "1 + int m"] by (simp add: add.commute add.left_commute)
  moreover have "1 + int m + 1 = 1 + int (Suc m)" by simp
  ultimately show ?case
    using Suc cavity_interior_profile[OF wf un b] by (simp add: for_res_append)
qed

lemma cavity_interior_all:
  assumes wf: "cavity_wf cav" and un: "length un = nat (cv_N (wc_p cav))"
  shows "for_res (py_range 1 (cv_N (wc_p cav) - 1)) (cavity_interior cav) un
       = Inr (interior_profile cav un (cv_N (wc_p cav) - 1))"
proof (cases "cv_N (wc_p cav) - 1 \<le> 1")
  case True
  then have "interior_profile cav un (cv_N (wc_p cav) - 1) = un"
    by (auto simp: interior_profile_def intro!: nth_equalityI)
  with True show ?thesis by (simp add: py_range_def)
next
  case False
  then have "1 + int (nat (cv_N (wc_p cav) - 2)) = cv_N (wc_p cav) - 1" by simp
  with cavity_interior_loop[OF wf un, of "nat (cv_N (wc_p cav) - 2)"] show ?thesis by simp
qed

lemma drive_index_interior:
  "3 \<le> cv_N p \<Longrightarrow> 1 \<le> drive_index p \<and> drive_index p \<le> cv_N p - 2"
  by (auto simp: drive_index_def)

lemma drive_index_bounds:
  "2 \<le> cv_N p \<Longrightarrow> 1 \<le> drive_index p \<and> drive_index p < cv_N p"
  by (auto simp: drive_index_def)

lemma cavity_edges_ok:
  assumes wf: "cavity_wf cav" and un: "length un = nat (cv_N (wc_p cav))"
    and N: "2 \<le> cv_N (wc_p cav)"
  shows "cavity_edges cav un =
     Inr (un[0 := edge_value cav 1,
             nat (cv_N (wc_p cav) - 1) := edge_value cav (nat (cv_N (wc_p cav) - 2))])"
proof -
  from wf have len: "length (wc_u cav) = nat (cv_N (wc_p cav))"
    by (simp add: cavity_wf_def Let_def)
  show ?thesis using N
    by (simp add: cavity_edges_def Let_def py_set_in py_get_in un len edge_value_def)
qed

lemma WaveCavity_step_ok:
  assumes wf: "cavity_wf cav" and N: "2 \<le> cv_N (wc_p cav)"
  shows "WaveCavity_step R n (cav, g) =
     Inr (cav\<lparr>wc_phase := fst (cavity_source R n (cav, g)),
               wc_u_prev := wc_u cav,
               wc_u := (interior_profile cav (wc_u_next cav) (cv_N (wc_p cav) - 1))
                        [nat (drive_index (wc_p cav)) :=
                           interior_profile cav (wc_u_next cav) (cv_N (wc_p cav) - 1)
                             ! nat (drive_index (wc_p cav))
                           + cv_dt (wc_p cav) * cv_dt (wc_p cav)
                               * fst (snd (cavity_source R n (cav, g))),
                         0 := edge_value cav 1,
                         nat (cv_N (wc_p cav) - 1) := edge_value cav (nat (cv_N (wc_p cav) - 2))],
               wc_u_next := wc_u_prev cav\<rparr>,
          snd (snd (cavity_source R n (cav, g))))"
proof -
  let ?N = "cv_N (wc_p cav)"
  let ?un1 = "interior_profile cav (wc_u_next cav) (?N - 1)"
  from wf have len: "length (wc_u_next cav) = nat ?N"
    by (simp add: cavity_wf_def Let_def)
  have l1: "length ?un1 = nat ?N" by (simp add: interior_profile_def len)
  note a = cavity_interior_all[OF wf len]
  have b: "py_add_at ?un1 (drive_index (wc_p cav)) v
      = Inr (?un1[nat (drive_index (wc_p cav)) := ?un1 ! nat (drive_index (wc_p cav)) + v])" for v
    using drive_index_bounds[OF N] by (intro py_add_at_in) (auto simp: l1)
  have c: "cavity_edges cav (?un1[nat (drive_index (wc_p cav)) := w])
      = Inr (?un1[nat (drive_index (wc_p cav)) := w, 0 := edge_value cav 1,
             nat (?N - 1) := edge_value cav (nat (?N - 2))])" for w
    by (rule cavity_edges_ok[OF wf _ N]) (simp add: l1)
  show ?thesis
    by (simp add: WaveCavity_step_def Let_def split_beta a b c)
qed

lemma WaveCavity_step_wf:
  assumes wf: "cavity_wf cav" and N: "2 \<le> cv_N (wc_p cav)"
    and st: "WaveCavity_step R n (cav, g) = Inr (cav', g')"
  shows "cavity_wf cav' \<and> wc_p cav' = wc_p cav \<and> wc_mode cav' = wc_mode cav"
  using st wf unfolding WaveCavity_step_ok[OF wf N]
  by (auto simp: cavity_wf_def Let_def interior_profile_def)

lemma py_add_at_length: "py_add_at xs i v = Inr ys \<Longrightarrow> length ys = length xs"
  by (auto simp: py_add_at_def py_get_def py_set_def py_index_def bind_res_def
      split: sum.splits if_splits)

lemma for_res_invariant:
  assumes "\<And>x s s'. x \<in> set xs \<Longrightarrow> P s \<Longrightarrow> f x s = Inr s' \<Longrightarrow> P s'"
    and "P s" and "for_res xs f s = Inr s'"
  shows "P s'"
  using assms
proof (induction xs arbitrary: s)
  case Nil
  then show ?case by simp
next
  case (Cons x xs)
  from Cons.prems(3) obtain s1 where s1: "f x s = Inr s1" "for_res xs f s1 = Inr s'"
    by (auto simp: bind_res_def split: sum.splits)
  have "P s1" using Cons.prems(1)[of x s s1] Cons.prems(2) s1(1) by simp
  then show ?case using Cons.IH[of s1] Cons.prems(1) s1(2) by auto
qed

lemma pml_body_length:
  assumes "pml_body p i gam = Inr gam'"
  shows "length gam' = length gam"
proof -
  from assms obtain g1 v
    where "py_add_at gam i v = Inr g1" "py_add_at g1 (cv_N p - 1 - i) v = Inr gam'"
    by (auto simp: pml_body_def Let_def bind_res_def split: sum.splits)
  then have "length g1 = length gam" "length gam' = length g1"
    by (auto dest: py_add_at_length)
  then show ?thesis by simp
qed

lemma cavity_gamma_length:
  assumes "cavity_gamma p mode = Inr gam"
  shows "length gam = nat (cv_N p)"
proof (cases "mode = ''open''")
  case True
  with assms have l: "for_res (py_range 0 (cv_pml_len p)) (pml_body p)
                        (py_replicate (cv_N p) (cv_gamma_interior p)) = Inr gam"
    by (simp add: cavity_gamma_def Let_def)
  show ?thesis
    by (rule for_res_invariant[where P = "\<lambda>g. length g = nat (cv_N p)", OF _ _ l])
       (auto simp: py_replicate_def dest: pml_body_length)
next
  case False
  with assms show ?thesis by (auto simp: cavity_gamma_def Let_def py_replicate_def)
qed

lemma WaveCavity_init_wf:
  assumes "WaveCavity_init R g0 p mode = Inr (cav, g)"
  shows "cavity_wf cav \<and> wc_p cav = p \<and> wc_mode cav = mode"
  using assms
  by (auto simp: WaveCavity_init_def Let_def bind_res_def cavity_wf_def py_replicate_def
      split: if_splits sum.splits dest: cavity_gamma_length)

lemma WaveCavity_init_confined:
  assumes "cv_dx p \<noteq> 0" "cv_c p * cv_dt p / cv_dx p \<le> 1"
  shows "\<exists>cav. WaveCavity_init R g0 p ''confined'' = Inr (cav, seed_op R (cv_seed p))"
  using assms by (simp add: WaveCavity_init_def Let_def py_div_def cavity_gamma_def)

section \<open>The damping profile of the 3-D grid\<close>

lemma idx3_decode:
  fixes N i j k :: int
  assumes "0 \<le> i" "i < N" "0 \<le> j" "j < N" "0 \<le> k"
  shows "((k * N + j) * N + i) mod N = i"
    "(((k * N + j) * N + i) div N) mod N = j"
    "((k * N + j) * N + i) div (N * N) = k"
proof -
  have N: "0 < N" using assms by linarith
  show "((k * N + j) * N + i) mod N = i" using assms by simp
  have d: "((k * N + j) * N + i) div N = k * N + j" using assms N by simp
  show "(((k * N + j) * N + i) div N) mod N = j" unfolding d using assms by simp
  have "((k * N + j) * N + i) div (N * N) = (((k * N + j) * N + i) div N) div N"
    using N by (simp add: zdiv_zmult2_eq)
  also have "\<dots> = k" unfolding d using assms N by simp
  finally show "((k * N + j) * N + i) div (N * N) = k" .
qed

lemma idx3_bound:
  fixes N i j k :: int
  assumes "0 \<le> i" "i < N" "0 \<le> j" "j < N" "0 \<le> k" "k < N"
  shows "0 \<le> (k * N + j) * N + i" "(k * N + j) * N + i < N * N * N"
proof -
  have N: "0 < N" using assms by linarith
  show "0 \<le> (k * N + j) * N + i" using assms N by simp
  have "k * N \<le> (N - 1) * N" using assms N by (intro mult_right_mono) auto
  then have "k * N + j \<le> N * N - 1" using assms by (simp add: algebra_simps)
  then have "(k * N + j) * N \<le> (N * N - 1) * N" using N by (intro mult_right_mono) auto
  then show "(k * N + j) * N + i < N * N * N" using assms by (simp add: algebra_simps)
qed

lemma pml3_body_profile:
  assumes "0 \<le> i" "i < p3_N p" "0 \<le> j" "j < p3_N p" "0 \<le> k" "k < p3_N p"
  shows "pml3_body p k j i (pml3_profile p ((k * p3_N p + j) * p3_N p + i))
           = Inr (pml3_profile p ((k * p3_N p + j) * p3_N p + i + 1))"
proof -
  let ?N = "p3_N p"
  let ?t = "(k * ?N + j) * ?N + i"
  let ?P = "pml3_profile p ?t"
  note b = idx3_bound[OF assms]
  note dc = idx3_decode[OF assms(1-5)]
  have len: "length ?P = nat (?N * ?N * ?N)" by (simp add: pml3_profile_def)
  have g: "(let N = p3_N p; L = p3_pml_len p; d = pml3_depth N i j k
            in if d < L then p3_pml_max p * of_int (L - d) / of_int L else 0) = pml3_extra p i j k"
    by (simp only: pml3_extra_def Let_def)
  have s: "py_add_at ?P ?t v = Inr (?P[nat ?t := ?P ! nat ?t + v])" for v
    using b by (intro py_add_at_in) (auto simp: len)
  have "?P[nat ?t := ?P ! nat ?t + pml3_extra p i j k] = pml3_profile p (?t + 1)"
  proof (rule nth_equalityI)
    show "length (?P[nat ?t := ?P ! nat ?t + pml3_extra p i j k]) = length (pml3_profile p (?t + 1))"
      by (simp add: pml3_profile_def)
  next
    fix n assume "n < length (?P[nat ?t := ?P ! nat ?t + pml3_extra p i j k])"
    then have n: "n < nat (?N * ?N * ?N)" by (simp add: len)
    have e: "(n = nat ?t) = (int n = ?t)" using b by auto
    show "?P[nat ?t := ?P ! nat ?t + pml3_extra p i j k] ! n = pml3_profile p (?t + 1) ! n"
    proof (cases "int n = ?t")
      case True
      then have nt: "n = nat ?t" using e by simp
      have "pml3_profile p (?t + 1) ! n = p3_gamma_interior p + pml3_extra p i j k"
        using n True dc by (simp add: pml3_profile_def)
      moreover have "?P ! n = p3_gamma_interior p"
        using n True by (simp add: pml3_profile_def)
      ultimately show ?thesis using n nt by (simp add: len)
    next
      case False
      then have "n \<noteq> nat ?t" using e by simp
      moreover have "(int n < ?t + 1) = (int n < ?t)" using False by auto
      ultimately show ?thesis using n by (simp add: pml3_profile_def)
    qed
  qed
  then show ?thesis
    unfolding pml3_body_def
    by (simp only: Let_def g[unfolded Let_def] s)
qed

lemma pml3_inner_loop:
  assumes "0 \<le> j" "j < p3_N p" "0 \<le> k" "k < p3_N p"
  shows "int m \<le> p3_N p \<Longrightarrow>
     for_res (py_range 0 (int m)) (pml3_body p k j) (pml3_profile p ((k * p3_N p + j) * p3_N p))
       = Inr (pml3_profile p ((k * p3_N p + j) * p3_N p + int m))"
proof (induction m)
  case 0
  then show ?case by (simp add: py_range_def)
next
  case (Suc m)
  then have m: "0 \<le> int m" "int m < p3_N p" "int m \<le> p3_N p" by auto
  have r: "py_range 0 (1 + int m) = py_range 0 (int m) @ [int m]"
    using py_range_snoc[of 0 "int m"] by (simp add: add.commute)
  have e: "(k * p3_N p + j) * p3_N p + int m + 1 = (k * p3_N p + j) * p3_N p + (1 + int m)"
    by simp
  have "pml3_body p k j (int m) (pml3_profile p ((k * p3_N p + j) * p3_N p + int m))
      = Inr (pml3_profile p ((k * p3_N p + j) * p3_N p + (1 + int m)))"
    using pml3_body_profile[OF m(1,2) assms] unfolding e .
  then show ?case
    using Suc.IH[OF m(3)] by (simp add: r for_res_append)
qed

lemma pml3_middle_loop:
  assumes "0 \<le> k" "k < p3_N p"
  shows "int m \<le> p3_N p \<Longrightarrow>
     for_res (py_range 0 (int m))
        (\<lambda>j. for_res (py_range 0 (p3_N p)) (pml3_body p k j))
        (pml3_profile p (k * p3_N p * p3_N p))
       = Inr (pml3_profile p ((k * p3_N p + int m) * p3_N p))"
proof (induction m)
  case 0
  then show ?case by (simp add: py_range_def)
next
  case (Suc m)
  then have m: "0 \<le> int m" "int m < p3_N p" "int m \<le> p3_N p" by auto
  have r: "py_range 0 (1 + int m) = py_range 0 (int m) @ [int m]"
    using py_range_snoc[of 0 "int m"] by (simp add: add.commute)
  have N: "int (nat (p3_N p)) = p3_N p" "int (nat (p3_N p)) \<le> p3_N p" using m by auto
  have e: "(k * p3_N p + int m) * p3_N p + p3_N p = (k * p3_N p + (1 + int m)) * p3_N p"
    by (simp add: algebra_simps)
  have "for_res (py_range 0 (p3_N p)) (pml3_body p k (int m))
          (pml3_profile p ((k * p3_N p + int m) * p3_N p))
        = Inr (pml3_profile p ((k * p3_N p + (1 + int m)) * p3_N p))"
    using pml3_inner_loop[OF m(1,2) assms N(2)] unfolding N(1) e .
  then show ?case
    using Suc.IH[OF m(3)] by (simp add: r for_res_append)
qed

lemma pml3_outer_loop:
  "int m \<le> p3_N p \<Longrightarrow>
     for_res (py_range 0 (int m))
        (\<lambda>k. for_res (py_range 0 (p3_N p))
                (\<lambda>j. for_res (py_range 0 (p3_N p)) (pml3_body p k j)))
        (pml3_profile p 0)
       = Inr (pml3_profile p (int m * p3_N p * p3_N p))"
proof (induction m)
  case 0
  then show ?case by (simp add: py_range_def)
next
  case (Suc m)
  then have m: "0 \<le> int m" "int m < p3_N p" "int m \<le> p3_N p" by auto
  have r: "py_range 0 (1 + int m) = py_range 0 (int m) @ [int m]"
    using py_range_snoc[of 0 "int m"] by (simp add: add.commute)
  have N: "int (nat (p3_N p)) = p3_N p" "int (nat (p3_N p)) \<le> p3_N p" using m by auto
  have e: "(int m * p3_N p + p3_N p) * p3_N p = (1 + int m) * p3_N p * p3_N p"
    by (simp add: algebra_simps)
  have "for_res (py_range 0 (p3_N p))
          (\<lambda>j. for_res (py_range 0 (p3_N p)) (pml3_body p (int m) j))
          (pml3_profile p (int m * p3_N p * p3_N p))
        = Inr (pml3_profile p ((1 + int m) * p3_N p * p3_N p))"
    using pml3_middle_loop[OF m(1,2) N(2)] unfolding N(1) e .
  then show ?case
    using Suc.IH[OF m(3)] by (simp add: r for_res_append)
qed

lemma pml3_profile_0: "pml3_profile p 0 = py_replicate (p3_N p * p3_N p * p3_N p) (p3_gamma_interior p)"
  by (auto simp: pml3_profile_def py_replicate_def intro!: nth_equalityI)

lemma wave3d_gamma_open:
  "wave3d_gamma p ''open'' = Inr (pml3_profile p (p3_N p * p3_N p * p3_N p))"
proof (cases "0 \<le> p3_N p")
  case True
  then have "int (nat (p3_N p)) = p3_N p" "int (nat (p3_N p)) \<le> p3_N p" by auto
  with pml3_outer_loop[of "nat (p3_N p)" p] show ?thesis
    by (simp add: wave3d_gamma_def Let_def pml3_profile_0)
next
  case False
  then have "p3_N p * p3_N p * p3_N p \<le> 0"
    by (simp add: mult_le_0_iff zero_le_mult_iff)
  then have "pml3_profile p t = []" for t by (simp add: pml3_profile_def)
  with False show ?thesis
    by (simp add: wave3d_gamma_def Let_def pml3_profile_0[symmetric] py_range_def)
qed

lemma wave3d_gamma_confined:
  "wave3d_gamma p ''confined'' = Inr (replicate (nat (p3_N p * p3_N p * p3_N p)) (p3_gamma_interior p))"
  by (simp add: wave3d_gamma_def Let_def py_replicate_def)

lemma wave3d_profile_node:
  assumes "0 \<le> i" "i < p3_N p" "0 \<le> j" "j < p3_N p" "0 \<le> k" "k < p3_N p"
  shows "pml3_profile p (p3_N p * p3_N p * p3_N p) ! nat ((k * p3_N p + j) * p3_N p + i)
           = p3_gamma_interior p + pml3_extra p i j k"
  using idx3_bound[OF assms] idx3_decode[OF assms(1-5)]
  by (simp add: pml3_profile_def)

text \<open>
  The 3-D constructor, and the reflective profiles.  For the absorbing variant the node
  \<open>(i, j, k)\<close> of the grid, at depth \<open>d = min(i, j, k, N-1-i, N-1-j, N-1-k)\<close>, gets the
  baseline plus \<open>pml_max * (L - d) / L\<close> when \<open>d < L\<close> and the baseline alone
  otherwise: the full maximum at depth 0, falling linearly to nothing at depth \<open>L\<close>.
  For the reflective variant the profile is the baseline at every node, in one dimension
  and in three.
\<close>

lemma wave3d_ramp_from_edge:
  "(0 \<le> i \<and> i < p3_N p \<and> 0 \<le> j \<and> j < p3_N p \<and> 0 \<le> k \<and> k < p3_N p \<longrightarrow>
      (\<exists>gam. wave3d_gamma p ''open'' = Inr gam
         \<and> gam ! nat ((k * p3_N p + j) * p3_N p + i) =
             p3_gamma_interior p
               + (if pml3_depth (p3_N p) i j k < p3_pml_len p
                  then p3_pml_max p * of_int (p3_pml_len p - pml3_depth (p3_N p) i j k)
                         / of_int (p3_pml_len p)
                  else 0)))
   \<and> wave3d_gamma p ''confined''
        = Inr (replicate (nat (p3_N p * p3_N p * p3_N p)) (p3_gamma_interior p))
   \<and> cavity_gamma q ''confined'' = Inr (replicate (nat (cv_N q)) (cv_gamma_interior q))"
proof (intro conjI impI)
  assume "0 \<le> i \<and> i < p3_N p \<and> 0 \<le> j \<and> j < p3_N p \<and> 0 \<le> k \<and> k < p3_N p"
  then have b: "0 \<le> i" "i < p3_N p" "0 \<le> j" "j < p3_N p" "0 \<le> k" "k < p3_N p"
    by simp_all
  from wave3d_profile_node[OF b] wave3d_gamma_open[of p]
  show "\<exists>gam. wave3d_gamma p ''open'' = Inr gam
         \<and> gam ! nat ((k * p3_N p + j) * p3_N p + i) =
             p3_gamma_interior p
               + (if pml3_depth (p3_N p) i j k < p3_pml_len p
                  then p3_pml_max p * of_int (p3_pml_len p - pml3_depth (p3_N p) i j k)
                         / of_int (p3_pml_len p)
                  else 0)"
    by (simp add: pml3_extra_def)
next
  show "wave3d_gamma p ''confined''
        = Inr (replicate (nat (p3_N p * p3_N p * p3_N p)) (p3_gamma_interior p))"
    by (rule wave3d_gamma_confined)
next
  show "cavity_gamma q ''confined'' = Inr (replicate (nat (cv_N q)) (cv_gamma_interior q))"
    by (simp add: cavity_gamma_def Let_def py_replicate_def)
qed

lemma wave3d_ramp_from_edge_example:
  "(0::int) \<le> 1 \<and> 1 < p3_N P3D_default \<and> (0::int) \<le> 5 \<and> 5 < p3_N P3D_default
   \<and> pml3_depth (p3_N P3D_default) 0 5 5 = 0
   \<and> pml3_depth (p3_N P3D_default) 1 5 5 = 1
   \<and> (\<exists>gam. wave3d_gamma P3D_default ''open'' = Inr gam
         \<and> gam ! nat ((5 * p3_N P3D_default + 5) * p3_N P3D_default + 0) = 2/1000 + 6/100
         \<and> gam ! nat ((5 * p3_N P3D_default + 5) * p3_N P3D_default + 1)
              = 2/1000 + (6/100) * 2 / 3
         \<and> gam ! nat ((5 * p3_N P3D_default + 5) * p3_N P3D_default + 3) = 2/1000)"
proof -
  have n: "p3_N P3D_default = 22" "p3_pml_len P3D_default = 3"
    "p3_pml_max P3D_default = 6/100" "p3_gamma_interior P3D_default = 2/1000"
    by (simp_all add: P3D_default_def)
  have d: "pml3_depth 22 0 5 5 = 0" "pml3_depth 22 1 5 5 = 1" "pml3_depth 22 3 5 5 = 3"
    by (simp_all add: pml3_depth_def)
  note t0 = wave3d_ramp_from_edge[of 0 P3D_default 5 5]
  note t1 = wave3d_ramp_from_edge[of 1 P3D_default 5 5]
  note t3 = wave3d_ramp_from_edge[of 3 P3D_default 5 5]
  obtain gam where g: "wave3d_gamma P3D_default ''open'' = Inr gam"
    using t0 by (auto simp: n)
  from t0 g have "gam ! nat ((5 * p3_N P3D_default + 5) * p3_N P3D_default + 0) = 2/1000 + 6/100"
    by (simp add: n d)
  moreover from t1 g have "gam ! nat ((5 * p3_N P3D_default + 5) * p3_N P3D_default + 1)
              = 2/1000 + (6/100) * 2 / 3"
    by (simp add: n d)
  moreover from t3 g have "gam ! nat ((5 * p3_N P3D_default + 5) * p3_N P3D_default + 3) = 2/1000"
    by (simp add: n d)
  ultimately show ?thesis using g by (simp add: n d)
qed

section \<open>The damping profile\<close>

text \<open>
  Claim C3, evaluated on the code.  The 1-D constructor adds
  \<open>pml_max * (i + 1) / L\<close> at depth \<open>i\<close>, so its ramp runs against the one claimed: it is
  smallest at the outermost node and reaches the maximum at the innermost node of the
  layer.  With the default parameters (\<open>L = 80\<close>, \<open>pml_max = 0.02\<close>, baseline \<open>0.001\<close>)
  the outermost nodes 0 and 599 get \<open>0.001 + 0.02 / 80\<close>, the innermost layer nodes 79
  and 520 get \<open>0.001 + 0.02\<close>, and node 80, the first past the layer, the baseline.
\<close>

theorem cavity_ramp_grows_inward:
  "\<exists>gam. cavity_gamma CavityParams_default ''open'' = Inr gam
     \<and> gam ! 0 = 1/1000 + (2/100) * 1 / 80 \<and> gam ! 599 = 1/1000 + (2/100) * 1 / 80
     \<and> gam ! 79 = 1/1000 + 2/100 \<and> gam ! 520 = 1/1000 + 2/100
     \<and> gam ! 80 = 1/1000"
proof -
  have "cavity_gamma CavityParams_default ''open'' = Inr (pml_profile CavityParams_default 80)"
    using cavity_gamma_open[of CavityParams_default] by (simp add: CavityParams_default_def)
  moreover have "pml_profile CavityParams_default 80 ! 0 = 1/1000 + (2/100) * 1 / 80"
    "pml_profile CavityParams_default 80 ! 599 = 1/1000 + (2/100) * 1 / 80"
    "pml_profile CavityParams_default 80 ! 79 = 1/1000 + 2/100"
    "pml_profile CavityParams_default 80 ! 520 = 1/1000 + 2/100"
    "pml_profile CavityParams_default 80 ! 80 = 1/1000"
    by (simp_all add: pml_profile_def pml_ramp_def CavityParams_default_def)
  ultimately show ?thesis by blast
qed

section \<open>Where the drive is applied\<close>

text \<open>
  Claim C10 as stated fails on a grid without interior nodes.  With \<open>N = 1\<close> the
  constructor succeeds and the first step raises \<open>IndexError\<close> at
  \<open>u_next[i0] += ...\<close>, since \<open>i0 = 1\<close>; with \<open>N = 2\<close> the drive index is 1, the
  boundary node \<open>N - 1\<close>.
\<close>

theorem drive_index_needs_interior:
  "(\<exists>cav g. WaveCavity_init counting_random 0 (CavityParams_default\<lparr>cv_N := 1\<rparr>) ''confined''
               = Inr (cav, g)
            \<and> WaveCavity_step counting_random 0 (cav, g) = Inl IndexError)
   \<and> drive_index (CavityParams_default\<lparr>cv_N := 2\<rparr>) = 1
   \<and> \<not> drive_index (CavityParams_default\<lparr>cv_N := 2\<rparr>)
         \<le> cv_N (CavityParams_default\<lparr>cv_N := 2\<rparr>) - 2"
  by (simp add: WaveCavity_init_def CavityParams_default_def py_div_def cavity_gamma_def
      py_replicate_def WaveCavity_step_def cavity_source_def cavity_phase_update_def
      py_gauss_def counting_random_def py_range_def drive_index_def py_add_at_def py_get_def
      py_index_def Let_def split_beta)

text \<open>
  Claim C10, amended.  On a grid with at least three nodes, and for every source index
  \<open>i_src\<close>, in range or not: the drive index lies in \<open>[1, N - 2]\<close>; a step of a cavity
  whose arrays have length \<open>N\<close> does not raise; every interior node \<open>j\<close> ends with the
  value of the interior update, plus the forcing \<open>dt * dt * s\<close> at the drive index and
  nowhere else; and the two boundary nodes hold what the edge rule writes (zero, or the
  neighbour's previous value), never the source term.
\<close>

theorem drive_lands_on_interior_node:
  assumes "3 \<le> cv_N (wc_p cav)" "cavity_wf cav"
  shows "1 \<le> drive_index (wc_p cav) \<and> drive_index (wc_p cav) \<le> cv_N (wc_p cav) - 2
    \<and> (\<exists>cav' g'. WaveCavity_step R n (cav, g) = Inr (cav', g')
         \<and> cavity_wf cav'
         \<and> (\<forall>j. 1 \<le> j \<and> j \<le> cv_N (wc_p cav) - 2 \<longrightarrow>
               wc_u cav' ! nat j = interior_value cav (nat j)
                  + (if j = drive_index (wc_p cav)
                     then cv_dt (wc_p cav) * cv_dt (wc_p cav)
                            * fst (snd (cavity_source R n (cav, g)))
                     else 0))
         \<and> wc_u cav' ! 0 = (if wc_mode cav = ''confined'' then 0 else wc_u cav ! 1)
         \<and> wc_u cav' ! nat (cv_N (wc_p cav) - 1)
             = (if wc_mode cav = ''confined'' then 0
                else wc_u cav ! nat (cv_N (wc_p cav) - 2)))"
proof -
  let ?N = "cv_N (wc_p cav)"
  let ?i0 = "drive_index (wc_p cav)"
  have N2: "2 \<le> ?N" using assms(1) by simp
  note di = drive_index_interior[OF assms(1)]
  from assms(2) have len: "length (wc_u_next cav) = nat ?N"
    by (simp add: cavity_wf_def Let_def)
  note ok = WaveCavity_step_ok[OF assms(2) N2, of R n g]
  obtain cav' g' where st: "WaveCavity_step R n (cav, g) = Inr (cav', g')"
    using ok by blast
  note wf' = WaveCavity_step_wf[OF assms(2) N2 st]
  have u': "wc_u cav' = (interior_profile cav (wc_u_next cav) (?N - 1))
                        [nat ?i0 := interior_profile cav (wc_u_next cav) (?N - 1) ! nat ?i0
                           + cv_dt (wc_p cav) * cv_dt (wc_p cav)
                               * fst (snd (cavity_source R n (cav, g))),
                         0 := edge_value cav 1,
                         nat (?N - 1) := edge_value cav (nat (?N - 2))]"
    using st unfolding ok by auto
  have inner: "wc_u cav' ! nat j = interior_value cav (nat j)
                  + (if j = ?i0 then cv_dt (wc_p cav) * cv_dt (wc_p cav)
                            * fst (snd (cavity_source R n (cav, g))) else 0)"
    if j: "1 \<le> j \<and> j \<le> ?N - 2" for j
  proof -
    have e: "(nat j = nat ?i0) = (j = ?i0)" "nat j \<noteq> 0" "nat j \<noteq> nat (?N - 1)"
       "nat j < nat ?N" "nat ?i0 < nat ?N"
      using j di by auto
    have "1 \<le> nat j" "int (nat j) < ?N - 1" using j by auto
    then have "interior_profile cav (wc_u_next cav) (?N - 1) ! nat j = interior_value cav (nat j)"
      using e(4) by (simp add: interior_profile_def len)
    then show ?thesis
      using e by (auto simp: u' nth_list_update interior_profile_def len)
  qed
  have e0: "wc_u cav' ! 0 = edge_value cav 1"
    using assms(1) by (simp add: u' nth_list_update interior_profile_def len)
  have eN: "wc_u cav' ! nat (?N - 1) = edge_value cav (nat (?N - 2))"
    using assms(1) by (simp add: u' nth_list_update interior_profile_def len)
  show ?thesis
    using di st wf' inner e0 eN by (auto simp: edge_value_def)
qed

theorem drive_lands_on_interior_node_witness:
  "3 \<le> cv_N (wc_p WaveCavity_far_source) \<and> cavity_wf WaveCavity_far_source
   \<and> cv_i_src (wc_p WaveCavity_far_source) = 1000
   \<and> drive_index (wc_p WaveCavity_far_source) = 598
   \<and> (\<exists>cav' g'. WaveCavity_step counting_random 0 (WaveCavity_far_source, 0) = Inr (cav', g')
          \<and> cavity_wf cav')"
proof -
  let ?p = "CavityParams_default\<lparr>cv_i_src := 1000\<rparr>"
  have "cv_dx ?p \<noteq> 0" "cv_c ?p * cv_dt ?p / cv_dx ?p \<le> 1"
    by (simp_all add: CavityParams_default_def)
  from WaveCavity_init_confined[OF this, of counting_random 0]
  obtain cav where i: "WaveCavity_init counting_random 0 ?p ''confined''
      = Inr (cav, seed_op counting_random (cv_seed ?p))"
    by blast
  then have c: "WaveCavity_far_source = cav" by (simp add: WaveCavity_far_source_def)
  from WaveCavity_init_wf[OF i] have wf: "cavity_wf WaveCavity_far_source"
    and p: "wc_p WaveCavity_far_source = ?p"
    by (simp_all add: c)
  have n: "3 \<le> cv_N (wc_p WaveCavity_far_source)"
    and a: "cv_i_src (wc_p WaveCavity_far_source) = 1000"
    and d: "drive_index (wc_p WaveCavity_far_source) = 598"
    by (simp_all add: p CavityParams_default_def drive_index_def)
  from drive_lands_on_interior_node[OF n wf, of counting_random 0 0]
  have "\<exists>cav' g'. WaveCavity_step counting_random 0 (WaveCavity_far_source, 0) = Inr (cav', g')
          \<and> cavity_wf cav'"
    by blast
  with n wf a d show ?thesis by blast
qed

section \<open>Energy under the two boundary rules\<close>











section \<open>The phase controller without jitter\<close>















lemma parametric_setup_lock:
  "parametric_setup True (ParamParams_probe\<lparr>pp_K_lock := K\<rparr>) = Inr (ParamCtx_lock K)"
  by (simp add: parametric_setup_def ParamParams_probe_def ParamCtx_lock_def py_div_def
      py_sqrt_def py_int_def Let_def)




end
